theory Spec2Isabelle
  imports Main "HOL-Library.Word"
begin

section \<open>The governance instruction (util/instruction/execute\_transaction.go)\<close>

type_synonym byte = "8 word"
type_synonym uint8 = "8 word"
type_synonym uint16 = "16 word"
type_synonym uint32 = "32 word"
type_synonym uint64 = "64 word"

text \<open>\<^verbatim>\<open>solcommon.PublicKey\<close> is a 32-byte array; the functions below only copy it.\<close>

type_synonym PublicKey = "byte list"

record AccountMeta =
  PubKey :: PublicKey
  IsSigner :: bool
  IsWritable :: bool

record ExecuteTransactionParam =
  Governance :: PublicKey
  Proposal :: PublicKey
  VoteRecord :: PublicKey
  RecordTranaction :: PublicKey
  TransactionAccounts :: "AccountMeta list"

record Instruction =
  ProgramID :: PublicKey
  Accounts :: "AccountMeta list"
  Data :: "byte list"

text \<open>
  Modelled from the spec: the declaration of \<^verbatim>\<open>GovernanceInstructionType\<close> and the encoder
  \<^verbatim>\<open>bincode.SerializeData\<close> are not among the source files. The spec calls the payload
  an instruction-tag-prefixed fixed binary record. The kind of the tag type is a parameter
  of the model: for the sized unsigned integer kinds the encoder writes the value
  little-endian in the width of the kind; any other kind is one the encoder answers with
  an error, which \<^verbatim>\<open>ExecuteTransaction\<close> turns into a panic. A struct is encoded as the
  concatenation of its fields, so the one-field struct of the source is encoded as its tag.
\<close>

datatype GovernanceInstructionKind = KindUint8 | KindUint16 | KindUint32 | KindUint64 | KindOther

fun littleEndian :: "nat \<Rightarrow> nat \<Rightarrow> byte list" where
  "littleEndian 0 v = []"
| "littleEndian (Suc w) v = word_of_nat (v mod 256) # littleEndian w (v div 256)"

fun SerializeData :: "GovernanceInstructionKind \<Rightarrow> nat \<Rightarrow> string + byte list" where
  "SerializeData KindUint8 v = Inr (littleEndian 1 v)"
| "SerializeData KindUint16 v = Inr (littleEndian 2 v)"
| "SerializeData KindUint32 v = Inr (littleEndian 4 v)"
| "SerializeData KindUint64 v = Inr (littleEndian 8 v)"
| "SerializeData KindOther v = Inl ''unsupport type''"

text \<open>
  The two ways \<^verbatim>\<open>ExecuteTransaction\<close> can panic: the explicit \<^verbatim>\<open>panic(err)\<close> after the
  encoder, and the dereference of \<^verbatim>\<open>param\<close>, which is a pointer and may be nil
  (\<open>None\<close> here). The encoder runs first, as in the source.
\<close>

datatype panic = SerializePanic string | NilPointerDereference

definition ExecuteTransaction ::
  "GovernanceInstructionKind \<Rightarrow> PublicKey \<Rightarrow> ExecuteTransactionParam option \<Rightarrow> panic + Instruction"
where
  "ExecuteTransaction kind programID param =
     (case SerializeData kind 16 of
        Inl err \<Rightarrow> Inl (SerializePanic err)
      | Inr data \<Rightarrow>
          (case param of
             None \<Rightarrow> Inl NilPointerDereference
           | Some p \<Rightarrow>
               Inr \<lparr>ProgramID = programID,
                    Accounts =
                      [\<lparr>PubKey = Governance p, IsSigner = False, IsWritable = False\<rparr>,
                       \<lparr>PubKey = Proposal p, IsSigner = False, IsWritable = False\<rparr>,
                       \<lparr>PubKey = VoteRecord p, IsSigner = False, IsWritable = False\<rparr>,
                       \<lparr>PubKey = RecordTranaction p, IsSigner = False, IsWritable = True\<rparr>]
                      @ TransactionAccounts p,
                    Data = data\<rparr>))"

section \<open>The witness command (cmd/witness/main.go)\<close>

subsection \<open>Configuration\<close>

text \<open>
  The \<^verbatim>\<open>Configuration\<close> struct. The anonymous structs nested in it get a prefix for their
  fields, after the loop variable that ranges over them in \<^verbatim>\<open>main\<close>: \<open>cc_\<close> for an
  entry of \<^verbatim>\<open>Cashiers\<close>, \<open>tp_\<close> for a token pair, \<open>dr_\<close> for an entry of
  \<^verbatim>\<open>DecimalRound\<close>, \<open>rv_\<close> for \<^verbatim>\<open>Reverse\<close>. Go's \<^verbatim>\<open>int\<close> is \<open>int\<close>; a conversion to a
  sized unsigned type keeps the low bits, which is \<open>word_of_int\<close>. \<^verbatim>\<open>db.Config\<close> and
  \<^verbatim>\<open>time.Duration\<close> are only handed on, so a string and an integer stand for them.
\<close>

record TokenPair =
  tp_Token1 :: string
  tp_Token2 :: string

record DecimalRoundEntry =
  dr_Token1 :: string
  dr_Amount :: int

record ReverseConfig =
  rv_TransferTableName :: string
  rv_CashierContractAddress :: string
  rv_Tokens :: "string list"

record CashierConfig =
  cc_ID :: string
  cc_RelayerURL :: string
  cc_CashierContractAddress :: string
  cc_TokenSafeContractAddress :: string
  cc_ValidatorContractAddress :: string
  cc_TransferTableName :: string
  cc_TokenPairs :: "TokenPair list"
  cc_DecimalRound :: "DecimalRoundEntry list"
  cc_StartBlockHeight :: int
  cc_Reverse :: ReverseConfig
  cc_QPSLimit :: uint32
  cc_DisablePull :: bool

record Configuration =
  Chain :: string
  ClientURL :: string
  RelayerURL :: string
  Database :: string
  PrivateKey :: string
  SlackWebHook :: string
  LarkWebHook :: string
  ConfirmBlockNumber :: int
  BatchSize :: int
  Interval :: int
  GrpcPort :: int
  GrpcProxyPort :: int
  DisableTransferSubmit :: bool
  Cashiers :: "CashierConfig list"
  DestinationChain :: string

subsection \<open>What main constructs\<close>

text \<open>
  The objects \<^verbatim>\<open>main\<close> constructs are values that record the constructor called and the
  arguments it was called with, in the order of the call. Clients (\<^verbatim>\<open>iotexClient\<close>,
  \<^verbatim>\<open>ethClient\<close>, \<^verbatim>\<open>solClient\<close>) are left out: they carry no configuration but the
  client URL. A \<^verbatim>\<open>common.Address\<close>, a Solana public key and the bytes of an IoTeX address
  are byte lists; a \<^verbatim>\<open>util.Address\<close> remembers which family it belongs to.
\<close>

datatype AddressDecoder = NewETHAddressDecoder | NewSOLAddressDecoder

datatype SignHandler = NewSecp256k1SignHandler nat | NewEd25519SignHandler "byte list"

datatype UtilAddress = ETHAddressToAddress "byte list" | SOLAddress "byte list"

fun Bytes :: "UtilAddress \<Rightarrow> byte list" where
  "Bytes (ETHAddressToAddress b) = b"
| "Bytes (SOLAddress b) = b"

datatype Recorder =
    NewRecorder (rc_store: string) (rc_transferTableName: string)
      (rc_tokenPairs: "byte list \<rightharpoonup> UtilAddress") (rc_decimalRound: "byte list \<rightharpoonup> int")
      (rc_addrDecoder: AddressDecoder)
  | NewSOLRecorder (rc_store: string) (rc_transferTableName: string)
      (rc_tokenPairs: "byte list \<rightharpoonup> UtilAddress") (rc_decimalRound: "byte list \<rightharpoonup> int")
      (rc_addrDecoder: AddressDecoder)

datatype TokenCashier =
    onIotex: NewTokenCashier (tc_id: string) (tc_relayerURL: string) (tc_cashierContractAddr: "byte list")
      (tc_validatorContractAddr: "byte list") (tc_recorder: Recorder)
      (tc_startBlockHeight: uint64) (tc_addrDecoder: AddressDecoder)
  | onEthereum: NewTokenCashierOnEthereum (tc_id: string) (tc_relayerURL: string)
      (tc_cashierContractAddr: "byte list") (tc_tokenSafeContractAddr: "byte list")
      (tc_validatorContractAddr: "byte list") (tc_recorder: Recorder)
      (tc_startBlockHeight: uint64) (tc_confirmBlockNumber: uint8)
      (tc_reverseRecorder: "Recorder option") (tc_reverseCashierContractAddr: "byte list")
  | onSolana: NewTokenCashierOnSolana (tc_id: string) (tc_relayerURL: string)
      (tc_cashierContractAddr: "byte list") (tc_validatorContractAddr: "byte list")
      (tc_recorder: Recorder) (tc_startBlockHeight: uint64) (tc_qpsLimit: uint32)
      (tc_disablePull: bool)

text \<open>All the recorders a cashier is constructed with: the forward one, and the reverse
  one where the constructor takes one and \<^verbatim>\<open>main\<close> passes a non-nil pointer.\<close>

fun tc_recorders :: "TokenCashier \<Rightarrow> Recorder list" where
  "tc_recorders (NewTokenCashier i u a v r s d) = [r]"
| "tc_recorders (NewTokenCashierOnEthereum i u a t v r s n rr ra) =
     (case rr of None \<Rightarrow> [r] | Some r' \<Rightarrow> [r, r'])"
| "tc_recorders (NewTokenCashierOnSolana i u a v r s q p) = [r]"

record Service =
  svc_signHandler :: "SignHandler option"
  svc_cashiers :: "TokenCashier list"
  svc_batchSize :: uint16
  svc_interval :: int
  svc_disableTransferSubmit :: bool

text \<open>Every \<^verbatim>\<open>log.Fatal\<close> of the modelled part of \<^verbatim>\<open>main\<close>, with the values it prints.\<close>

datatype fatal =
    FailedToDecodePrivateKey string
  | InvalidPrivateKeyLength nat
  | FailedToCreateGrpcConnection string
  | FailedToParseCashierContractAddress string string
  | FailedToParseIotexAddress string string
  | DuplicateTokenKey string
  | FailedToDecodeDestinationAddress string string
  | FailedToParseTokenAddress string string
  | FailedToDecodeValidatorContractAddress string string
  | FailedToParseValidatorContractAddress string
  | FailedToCreateCashier string
  | FailedToDial string
  | UnknownChainName string
  | FailedToCreateWitnessService string
  | FailedToStartWitnessService string
  | InvalidStart string string
  | InvalidEnd string string
  | InvalidHeight string string
  | FailedToProcessBlock uint64 string

subsection \<open>Collaborators\<close>

text \<open>
  The functions of other packages that \<^verbatim>\<open>main\<close> calls are parameters of the model; an
  error result is \<open>Inl\<close> (or \<open>Some\<close> where the call returns only an error).
  \<open>FromString\<close> is \<^verbatim>\<open>address.FromString\<close> followed by \<^verbatim>\<open>Bytes()\<close>; \<open>DecodeString\<close> is
  the method of the address decoder; \<open>NewCashierError\<close> is the error of the cashier
  constructor called with the recorded arguments, \<open>NewServiceError\<close> and \<open>StartError\<close>
  those of \<^verbatim>\<open>witness.NewService\<close> and \<^verbatim>\<open>service.Start\<close>.
\<close>

record Collaborators =
  FromString :: "string \<Rightarrow> string + byte list"
  DecodeString :: "AddressDecoder \<Rightarrow> string \<Rightarrow> string + UtilAddress"
  HexToAddress :: "string \<Rightarrow> byte list"
  BytesToAddress :: "byte list \<Rightarrow> byte list"
  PublicKeyFromString :: "string \<Rightarrow> byte list"
  ToECDSA :: "byte list \<Rightarrow> string + nat"
  NewDefaultGRPCConn :: "string \<Rightarrow> string option"
  Dial :: "string \<Rightarrow> string option"
  NewCashierError :: "TokenCashier \<Rightarrow> string option"
  NewServiceError :: "Service \<Rightarrow> string option"
  StartError :: "Service \<Rightarrow> string option"

subsection \<open>The signing key (lines 154 to 189)\<close>

text \<open>
  \<^verbatim>\<open>hex.DecodeString\<close> of the Go library: two hexadecimal digits of either case give a
  byte; any other character, or an odd number of characters, is an error.
\<close>

definition fromHexChar :: "char \<Rightarrow> byte option" where
  "fromHexChar c =
     (let n = (of_char c :: nat) in
      if 48 \<le> n \<and> n \<le> 57 then Some (word_of_nat (n - 48))
      else if 97 \<le> n \<and> n \<le> 102 then Some (word_of_nat (n - 97 + 10))
      else if 65 \<le> n \<and> n \<le> 70 then Some (word_of_nat (n - 65 + 10))
      else None)"

fun hex_DecodeString :: "string \<Rightarrow> string + byte list" where
  "hex_DecodeString [] = Inr []"
| "hex_DecodeString [c] =
     (case fromHexChar c of
        None \<Rightarrow> Inl ''encoding/hex: invalid byte''
      | Some x \<Rightarrow> Inl ''encoding/hex: odd length hex string'')"
| "hex_DecodeString (a # b # cs) =
     (case fromHexChar a of
        None \<Rightarrow> Inl ''encoding/hex: invalid byte''
      | Some x \<Rightarrow>
          (case fromHexChar b of
             None \<Rightarrow> Inl ''encoding/hex: invalid byte''
           | Some y \<Rightarrow>
               (case hex_DecodeString cs of
                  Inl err \<Rightarrow> Inl err
                | Inr bs \<Rightarrow> Inr ((x * 16 + y) # bs))))"

text \<open>
  \<^verbatim>\<open>crypto.HexToECDSA\<close> decodes the hexadecimal text and hands the bytes to
  \<^verbatim>\<open>ToECDSA\<close>, which checks that they are a secp256k1 scalar.
\<close>

definition HexToECDSA :: "Collaborators \<Rightarrow> string \<Rightarrow> string + nat" where
  "HexToECDSA col hexkey =
     (case hex_DecodeString hexkey of
        Inl err \<Rightarrow> Inl ''invalid hex data for private key''
      | Inr b \<Rightarrow> ToECDSA col b)"

definition ed25519_PrivateKeySize :: nat where
  "ed25519_PrivateKeySize = 64"

text \<open>The switch on \<^verbatim>\<open>cfg.DestinationChain\<close>: the sign handler (nil when no private key
  is configured) and the decoder of destination addresses.\<close>

definition main_signHandler ::
  "Collaborators \<Rightarrow> Configuration \<Rightarrow> fatal + (SignHandler option \<times> AddressDecoder)"
where
  "main_signHandler col cfg =
     (if DestinationChain cfg = ''solana'' then
        (if PrivateKey cfg \<noteq> [] then
           (case hex_DecodeString (PrivateKey cfg) of
              Inl err \<Rightarrow> Inl (FailedToDecodePrivateKey err)
            | Inr privateKeyBytes \<Rightarrow>
                if length privateKeyBytes \<noteq> ed25519_PrivateKeySize
                then Inl (InvalidPrivateKeyLength (length privateKeyBytes))
                else Inr (Some (NewEd25519SignHandler privateKeyBytes), NewSOLAddressDecoder))
         else Inr (None, NewSOLAddressDecoder))
      else
        (if PrivateKey cfg \<noteq> [] then
           (case HexToECDSA col (PrivateKey cfg) of
              Inl err \<Rightarrow> Inl (FailedToDecodePrivateKey err)
            | Inr privateKey \<Rightarrow>
                Inr (Some (NewSecp256k1SignHandler privateKey), NewETHAddressDecoder))
         else Inr (None, NewETHAddressDecoder)))"

subsection \<open>The relayer URL of each cashier (lines 191 to 200)\<close>

definition relayerURL_of :: "string \<Rightarrow> CashierConfig \<Rightarrow> CashierConfig" where
  "relayerURL_of url cc =
     (if take 1 (cc_RelayerURL cc) = '':'' then cc\<lparr>cc_RelayerURL := url @ cc_RelayerURL cc\<rparr>
      else if cc_RelayerURL cc = [] then cc\<lparr>cc_RelayerURL := url\<rparr>
      else cc)"

definition main_relayerURLs :: "Configuration \<Rightarrow> Configuration" where
  "main_relayerURLs cfg =
     (if RelayerURL cfg \<noteq> []
      then cfg\<lparr>Cashiers := map (relayerURL_of (RelayerURL cfg)) (Cashiers cfg)\<rparr>
      else cfg)"

subsection \<open>The cashiers (lines 202 to 375)\<close>

text \<open>The loops that fill the token-pair and decimal-round maps. A map of Go is a partial
  function; assigning to a key overrides what was there.\<close>

fun iotexPairs ::
  "Collaborators \<Rightarrow> AddressDecoder \<Rightarrow> TokenPair list \<Rightarrow> (byte list \<rightharpoonup> UtilAddress)
     \<Rightarrow> fatal + (byte list \<rightharpoonup> UtilAddress)"
where
  "iotexPairs col dec [] pairs = Inr pairs"
| "iotexPairs col dec (pair # rest) pairs =
     (case FromString col (tp_Token1 pair) of
        Inl err \<Rightarrow> Inl (FailedToParseIotexAddress (tp_Token1 pair) err)
      | Inr ioAddr \<Rightarrow>
          if pairs (BytesToAddress col ioAddr) \<noteq> None
          then Inl (DuplicateTokenKey (tp_Token1 pair))
          else (case DecodeString col dec (tp_Token2 pair) of
                  Inl err \<Rightarrow> Inl (FailedToDecodeDestinationAddress (tp_Token2 pair) err)
                | Inr addr \<Rightarrow>
                    iotexPairs col dec rest (pairs(BytesToAddress col ioAddr \<mapsto> addr))))"

fun iotexDecimalRound ::
  "Collaborators \<Rightarrow> DecimalRoundEntry list \<Rightarrow> (byte list \<rightharpoonup> int) \<Rightarrow> fatal + (byte list \<rightharpoonup> int)"
where
  "iotexDecimalRound col [] decimalRound = Inr decimalRound"
| "iotexDecimalRound col (r # rest) decimalRound =
     (case FromString col (dr_Token1 r) of
        Inl err \<Rightarrow> Inl (FailedToParseTokenAddress (dr_Token1 r) err)
      | Inr addr \<Rightarrow>
          iotexDecimalRound col rest (decimalRound(BytesToAddress col addr \<mapsto> dr_Amount r)))"

fun ethereumPairs ::
  "Collaborators \<Rightarrow> TokenPair list \<Rightarrow> (byte list \<rightharpoonup> UtilAddress)
     \<Rightarrow> fatal + (byte list \<rightharpoonup> UtilAddress)"
where
  "ethereumPairs col [] pairs = Inr pairs"
| "ethereumPairs col (pair # rest) pairs =
     (if pairs (HexToAddress col (tp_Token1 pair)) \<noteq> None
      then Inl (DuplicateTokenKey (tp_Token1 pair))
      else (case FromString col (tp_Token2 pair) of
              Inl err \<Rightarrow> Inl (FailedToParseIotexAddress (tp_Token2 pair) err)
            | Inr ioAddr \<Rightarrow>
                ethereumPairs col rest
                  (pairs(HexToAddress col (tp_Token1 pair)
                           \<mapsto> ETHAddressToAddress (BytesToAddress col ioAddr)))))"

fun reversePairs ::
  "Collaborators \<Rightarrow> string list \<Rightarrow> (byte list \<rightharpoonup> UtilAddress) \<Rightarrow> (byte list \<rightharpoonup> UtilAddress)"
where
  "reversePairs col [] pairs = pairs"
| "reversePairs col (token # rest) pairs =
     reversePairs col rest
       (pairs(HexToAddress col token \<mapsto> ETHAddressToAddress (HexToAddress col token)))"

fun solanaPairs ::
  "Collaborators \<Rightarrow> AddressDecoder \<Rightarrow> TokenPair list \<Rightarrow> (byte list \<rightharpoonup> UtilAddress)
     \<Rightarrow> fatal + (byte list \<rightharpoonup> UtilAddress)"
where
  "solanaPairs col dec [] pairs = Inr pairs"
| "solanaPairs col dec (pair # rest) pairs =
     (if pairs (PublicKeyFromString col (tp_Token1 pair)) \<noteq> None
      then Inl (DuplicateTokenKey (tp_Token1 pair))
      else (case DecodeString col dec (tp_Token2 pair) of
              Inl err \<Rightarrow> Inl (FailedToParseIotexAddress (tp_Token2 pair) err)
            | Inr token2 \<Rightarrow>
                solanaPairs col dec rest
                  (pairs(PublicKeyFromString col (tp_Token1 pair) \<mapsto> token2))))"

fun solanaDecimalRound ::
  "Collaborators \<Rightarrow> DecimalRoundEntry list \<Rightarrow> (byte list \<rightharpoonup> int) \<Rightarrow> (byte list \<rightharpoonup> int)"
where
  "solanaDecimalRound col [] decimalRound = decimalRound"
| "solanaDecimalRound col (pair # rest) decimalRound =
     solanaDecimalRound col rest
       (decimalRound(PublicKeyFromString col (dr_Token1 pair) \<mapsto> dr_Amount pair))"

text \<open>The constructor call that ends each loop body: the cashier, or the fatal exit when
  the constructor returns an error.\<close>

definition created :: "Collaborators \<Rightarrow> TokenCashier \<Rightarrow> fatal + TokenCashier" where
  "created col cashier =
     (case NewCashierError col cashier of
        Some err \<Rightarrow> Inl (FailedToCreateCashier err)
      | None \<Rightarrow> Inr cashier)"

text \<open>The body of the loop over \<^verbatim>\<open>cfg.Cashiers\<close> in the case \<^verbatim>\<open>"iotex"\<close>.\<close>

definition iotexCashier ::
  "Collaborators \<Rightarrow> Configuration \<Rightarrow> AddressDecoder \<Rightarrow> CashierConfig \<Rightarrow> fatal + TokenCashier"
where
  "iotexCashier col cfg destAddrDecoder cc =
     (case FromString col (cc_CashierContractAddress cc) of
        Inl err \<Rightarrow> Inl (FailedToParseCashierContractAddress (cc_CashierContractAddress cc) err)
      | Inr cashierContractAddr \<Rightarrow>
     (case iotexPairs col destAddrDecoder (cc_TokenPairs cc) Map.empty of
        Inl f \<Rightarrow> Inl f
      | Inr pairs \<Rightarrow>
     (case iotexDecimalRound col (cc_DecimalRound cc) Map.empty of
        Inl f \<Rightarrow> Inl f
      | Inr decimalRound \<Rightarrow>
     (case DecodeString col destAddrDecoder (cc_ValidatorContractAddress cc) of
        Inl err \<Rightarrow>
          Inl (FailedToDecodeValidatorContractAddress (cc_ValidatorContractAddress cc) err)
      | Inr validatorContractAddr \<Rightarrow>
          created col
            (NewTokenCashier
               (cc_ID cc)
               (cc_RelayerURL cc)
               cashierContractAddr
               (Bytes validatorContractAddr)
               (NewRecorder (Database cfg) (cc_TransferTableName cc) pairs decimalRound
                  destAddrDecoder)
               (word_of_int (cc_StartBlockHeight cc))
               destAddrDecoder)))))"

text \<open>The body of the loop in the case \<^verbatim>\<open>"ethereum"\<close>, which the cases \<^verbatim>\<open>"heco"\<close>,
  \<^verbatim>\<open>"bsc"\<close>, \<^verbatim>\<open>"matic"\<close> and \<^verbatim>\<open>"polis"\<close> fall through to.\<close>

definition ethereumCashier ::
  "Collaborators \<Rightarrow> Configuration \<Rightarrow> AddressDecoder \<Rightarrow> CashierConfig \<Rightarrow> fatal + TokenCashier"
where
  "ethereumCashier col cfg destAddrDecoder cc =
     (case FromString col (cc_ValidatorContractAddress cc) of
        Inl err \<Rightarrow> Inl (FailedToParseValidatorContractAddress err)
      | Inr addr \<Rightarrow>
     (case ethereumPairs col (cc_TokenPairs cc) Map.empty of
        Inl f \<Rightarrow> Inl f
      | Inr pairs \<Rightarrow>
          (let reverseRecorder =
                 (if rv_CashierContractAddress (cc_Reverse cc) \<noteq> []
                     \<and> rv_TransferTableName (cc_Reverse cc) \<noteq> []
                  then Some (NewRecorder
                               (Database cfg)
                               (rv_TransferTableName (cc_Reverse cc))
                               (reversePairs col (rv_Tokens (cc_Reverse cc)) Map.empty)
                               Map.empty
                               destAddrDecoder)
                  else None)
           in created col
                (NewTokenCashierOnEthereum
                   (cc_ID cc)
                   (cc_RelayerURL cc)
                   (HexToAddress col (cc_CashierContractAddress cc))
                   (HexToAddress col (cc_TokenSafeContractAddress cc))
                   (BytesToAddress col addr)
                   (NewRecorder (Database cfg) (cc_TransferTableName cc) pairs Map.empty
                      destAddrDecoder)
                   (word_of_int (cc_StartBlockHeight cc))
                   (word_of_int (ConfirmBlockNumber cfg))
                   reverseRecorder
                   (HexToAddress col (rv_CashierContractAddress (cc_Reverse cc)))))))"

text \<open>The body of the loop in the case \<^verbatim>\<open>"solana"\<close>.\<close>

definition solanaCashier ::
  "Collaborators \<Rightarrow> Configuration \<Rightarrow> AddressDecoder \<Rightarrow> CashierConfig \<Rightarrow> fatal + TokenCashier"
where
  "solanaCashier col cfg destAddrDecoder cc =
     (case FromString col (cc_ValidatorContractAddress cc) of
        Inl err \<Rightarrow> Inl (FailedToParseValidatorContractAddress err)
      | Inr addr \<Rightarrow>
     (case solanaPairs col destAddrDecoder (cc_TokenPairs cc) Map.empty of
        Inl f \<Rightarrow> Inl f
      | Inr pairs \<Rightarrow>
          created col
            (NewTokenCashierOnSolana
               (cc_ID cc)
               (cc_RelayerURL cc)
               (PublicKeyFromString col (cc_CashierContractAddress cc))
               (BytesToAddress col addr)
               (NewSOLRecorder (Database cfg) (cc_TransferTableName cc) pairs
                  (solanaDecimalRound col (cc_DecimalRound cc) Map.empty)
                  destAddrDecoder)
               (word_of_int (cc_StartBlockHeight cc))
               (cc_QPSLimit cc)
               (cc_DisablePull cc))))"

text \<open>
  The loop over \<^verbatim>\<open>cfg.Cashiers\<close>: each cashier is appended to \<^verbatim>\<open>cashiers\<close>; a fatal exit
  in a body ends the process with the cashiers constructed so far.
\<close>

fun newCashiers ::
  "(CashierConfig \<Rightarrow> fatal + TokenCashier) \<Rightarrow> CashierConfig list \<Rightarrow> TokenCashier list
     \<Rightarrow> TokenCashier list \<times> fatal option"
where
  "newCashiers body [] cashiers = (cashiers, None)"
| "newCashiers body (cc # rest) cashiers =
     (case body cc of
        Inl f \<Rightarrow> (cashiers, Some f)
      | Inr cashier \<Rightarrow> newCashiers body rest (cashiers @ [cashier]))"

definition evmChain :: "string \<Rightarrow> bool" where
  "evmChain chain \<longleftrightarrow>
     chain = ''heco'' \<or> chain = ''bsc'' \<or> chain = ''matic'' \<or> chain = ''polis''
     \<or> chain = ''ethereum''"

text \<open>The switch on \<^verbatim>\<open>cfg.Chain\<close>. The client is created before the loop; on a chain
  name that no case matches the process ends.\<close>

definition main_cashiers ::
  "Collaborators \<Rightarrow> Configuration \<Rightarrow> AddressDecoder \<Rightarrow> TokenCashier list \<times> fatal option"
where
  "main_cashiers col cfg destAddrDecoder =
     (if Chain cfg = ''iotex'' then
        (case NewDefaultGRPCConn col (ClientURL cfg) of
           Some err \<Rightarrow> ([], Some (FailedToCreateGrpcConnection err))
         | None \<Rightarrow> newCashiers (iotexCashier col cfg destAddrDecoder) (Cashiers cfg) [])
      else if evmChain (Chain cfg) then
        (case Dial col (ClientURL cfg) of
           Some err \<Rightarrow> ([], Some (FailedToDial err))
         | None \<Rightarrow> newCashiers (ethereumCashier col cfg destAddrDecoder) (Cashiers cfg) [])
      else if Chain cfg = ''solana'' then
        newCashiers (solanaCashier col cfg destAddrDecoder) (Cashiers cfg) []
      else ([], Some (UnknownChainName (Chain cfg))))"

subsection \<open>Bounded replay (lines 392 to 422)\<close>

text \<open>\<^verbatim>\<open>strings.Split(s, ",")\<close>: the pieces between the commas, at least one piece.\<close>

fun Split :: "string \<Rightarrow> string list" where
  "Split [] = [[]]"
| "Split (c # cs) =
     (if c = CHR '','' then [] # Split cs
      else (case Split cs of [] \<Rightarrow> [[c]] | piece # pieces \<Rightarrow> (c # piece) # pieces))"

definition isDigit :: "char \<Rightarrow> bool" where
  "isDigit c \<longleftrightarrow> c \<in> set ''0123456789''"

text \<open>A match of the regular expression \<^verbatim>\<open>^([0-9]*)-([0-9]*)$\<close>, with its two groups:
  digits, one hyphen, digits to the end of the text.\<close>

definition FindStringSubmatch :: "string \<Rightarrow> (string \<times> string) option" where
  "FindStringSubmatch hstr =
     (case dropWhile isDigit hstr of
        [] \<Rightarrow> None
      | c # rest \<Rightarrow>
          if c = CHR ''-'' \<and> list_all isDigit rest
          then Some (takeWhile isDigit hstr, rest)
          else None)"

text \<open>\<^verbatim>\<open>strconv.ParseUint(s, 10, 64)\<close>: a non-empty string of decimal digits whose value
  fits 64 bits.\<close>

definition digitsValue :: "string \<Rightarrow> nat" where
  "digitsValue s = foldl (\<lambda>n c. 10 * n + (of_char c - 48)) 0 s"

definition ParseUint :: "string \<Rightarrow> string + uint64" where
  "ParseUint s =
     (if s = [] \<or> \<not> list_all isDigit s then Inl ''invalid syntax''
      else if digitsValue s < 2 ^ 64 then Inr (word_of_nat (digitsValue s))
      else Inl ''value out of range'')"

text \<open>The first and the last height of one item of the \<^verbatim>\<open>-blocks\<close> argument.\<close>

definition parseItem :: "string \<Rightarrow> fatal + (uint64 \<times> uint64)" where
  "parseItem hstr =
     (case FindStringSubmatch hstr of
        Some (m1, m2) \<Rightarrow>
          (case ParseUint m1 of
             Inl err \<Rightarrow> Inl (InvalidStart hstr err)
           | Inr start \<Rightarrow>
               (case ParseUint m2 of
                  Inl err \<Rightarrow> Inl (InvalidEnd hstr err)
                | Inr end \<Rightarrow> Inr (start, end)))
      | None \<Rightarrow>
          (case ParseUint hstr of
             Inl err \<Rightarrow> Inl (InvalidHeight hstr err)
           | Inr start \<Rightarrow> Inr (start, start)))"

text \<open>
  How a run of \<^verbatim>\<open>main\<close> ends: a fatal exit, the return after the replay (\<open>Done\<close>), or
  serving for ever in continuous mode. \<open>StillRunning\<close> is the answer of the model when the
  replay loop has not ended within the given number of calls of \<^verbatim>\<open>ProcessOneBlock\<close>.
\<close>

datatype exit = Fatal fatal | Done | Serving | StillRunning

text \<open>
  \<^verbatim>\<open>service.ProcessOneBlock\<close> is a parameter: from a height and the state of the service
  to an error or nil, and the new state. The calls made are logged in order, each with
  its height and its result.
\<close>

type_synonym 's ProcessOneBlock = "uint64 \<Rightarrow> 's \<Rightarrow> string option \<times> 's"

type_synonym calls = "(uint64 \<times> string option) list"

text \<open>
  The loop \<^verbatim>\<open>for height := start; height <= end; height++\<close> on 64-bit unsigned heights:
  \<open>height + 1\<close> wraps around. The first argument bounds the number of calls for one
  range.
\<close>

fun processRange ::
  "nat \<Rightarrow> 's ProcessOneBlock \<Rightarrow> uint64 \<Rightarrow> uint64 \<Rightarrow> 's \<times> calls \<Rightarrow> exit \<times> 's \<times> calls"
where
  "processRange 0 pob height end (st, log) =
     (if height \<le> end then (StillRunning, st, log) else (Done, st, log))"
| "processRange (Suc fuel) pob height end (st, log) =
     (if height \<le> end then
        (case pob height st of
           (Some err, st') \<Rightarrow>
             (Fatal (FailedToProcessBlock height err), st', log @ [(height, Some err)])
         | (None, st') \<Rightarrow>
             processRange fuel pob (height + 1) end (st', log @ [(height, None)]))
      else (Done, st, log))"

fun processItems ::
  "nat \<Rightarrow> 's ProcessOneBlock \<Rightarrow> string list \<Rightarrow> 's \<times> calls \<Rightarrow> exit \<times> 's \<times> calls"
where
  "processItems fuel pob [] (st, log) = (Done, st, log)"
| "processItems fuel pob (hstr # rest) (st, log) =
     (case parseItem hstr of
        Inl f \<Rightarrow> (Fatal f, st, log)
      | Inr (start, end) \<Rightarrow>
          (case processRange fuel pob start end (st, log) of
             (Done, st', log') \<Rightarrow> processItems fuel pob rest (st', log')
           | (ex, st', log') \<Rightarrow> (ex, st', log')))"

subsection \<open>main, from line 154\<close>

text \<open>
  A run starts from the populated configuration (after the overrides from the
  environment) and the value of the \<^verbatim>\<open>-blocks\<close> flag. Its result records what has been
  constructed when the run ends: the cashiers, the service once \<^verbatim>\<open>NewService\<close> has
  returned it, whether \<^verbatim>\<open>Start\<close> has launched the cycles, and the calls of
  \<^verbatim>\<open>ProcessOneBlock\<close>.
\<close>

definition continuously :: string where
  "continuously = ''continuously''"

record 's run =
  run_cashiers :: "TokenCashier list"
  run_service :: "Service option"
  run_started :: bool
  run_calls :: calls
  run_state :: 's
  run_exit :: exit

definition main ::
  "Collaborators \<Rightarrow> 's ProcessOneBlock \<Rightarrow> nat \<Rightarrow> string \<Rightarrow> Configuration \<Rightarrow> 's \<Rightarrow> 's run"
where
  "main col pob fuel blocksFlag cfg0 st =
     (case main_signHandler col cfg0 of
        Inl f \<Rightarrow>
          \<lparr>run_cashiers = [], run_service = None, run_started = False, run_calls = [],
           run_state = st, run_exit = Fatal f\<rparr>
      | Inr (signHandler, destAddrDecoder) \<Rightarrow>
          (let cfg = main_relayerURLs cfg0 in
           case main_cashiers col cfg destAddrDecoder of
             (cashiers, Some f) \<Rightarrow>
               \<lparr>run_cashiers = cashiers, run_service = None, run_started = False,
                run_calls = [], run_state = st, run_exit = Fatal f\<rparr>
           | (cashiers, None) \<Rightarrow>
               (let service =
                      \<lparr>svc_signHandler = signHandler,
                       svc_cashiers = cashiers,
                       svc_batchSize = word_of_int (BatchSize cfg),
                       svc_interval = Interval cfg,
                       svc_disableTransferSubmit = DisableTransferSubmit cfg\<rparr>
                in case NewServiceError col service of
                     Some err \<Rightarrow>
                       \<lparr>run_cashiers = cashiers, run_service = None, run_started = False,
                        run_calls = [], run_state = st,
                        run_exit = Fatal (FailedToCreateWitnessService err)\<rparr>
                   | None \<Rightarrow>
                       (case StartError col service of
                          Some err \<Rightarrow>
                            \<lparr>run_cashiers = cashiers, run_service = Some service,
                             run_started = False, run_calls = [], run_state = st,
                             run_exit = Fatal (FailedToStartWitnessService err)\<rparr>
                        | None \<Rightarrow>
                            if blocksFlag \<noteq> continuously then
                              (case processItems fuel pob (Split blocksFlag) (st, []) of
                                 (ex, st', log) \<Rightarrow>
                                   \<lparr>run_cashiers = cashiers, run_service = Some service,
                                    run_started = True, run_calls = log, run_state = st',
                                    run_exit = ex\<rparr>)
                            else
                              \<lparr>run_cashiers = cashiers, run_service = Some service,
                               run_started = True, run_calls = [], run_state = st,
                               run_exit = Serving\<rparr>))))"

text \<open>The loop body that the switch on the chain name runs for each cashier.\<close>

definition cashierBody ::
  "Collaborators \<Rightarrow> Configuration \<Rightarrow> AddressDecoder \<Rightarrow> CashierConfig \<Rightarrow> fatal + TokenCashier"
where
  "cashierBody col cfg destAddrDecoder =
     (if Chain cfg = ''iotex'' then iotexCashier col cfg destAddrDecoder
      else if evmChain (Chain cfg) then ethereumCashier col cfg destAddrDecoder
      else solanaCashier col cfg destAddrDecoder)"


subsection \<open>The replay argument as the operator writes it\<close>

text \<open>
  The reading of the \<^verbatim>\<open>-blocks\<close> argument that the replay loop is compared with: an
  item is one decimal height or two decimal numbers joined by a hyphen, the argument is
  the items joined by commas, and an item asks for its height, or for the heights from
  the first number through the second, ascending.
\<close>

datatype spec_item = Height string | Range string string

fun spec_text :: "spec_item \<Rightarrow> string" where
  "spec_text (Height h) = h"
| "spec_text (Range a b) = a @ ''-'' @ b"

fun spec_join :: "string list \<Rightarrow> string" where
  "spec_join [] = []"
| "spec_join [x] = x"
| "spec_join (x # y # rest) = x @ '','' @ spec_join (y # rest)"

definition spec_blocks :: "spec_item list \<Rightarrow> string" where
  "spec_blocks items = spec_join (map spec_text items)"

definition decimal :: "string \<Rightarrow> bool" where
  "decimal s \<longleftrightarrow> s \<noteq> [] \<and> list_all isDigit s"

fun spec_heights :: "spec_item \<Rightarrow> nat list" where
  "spec_heights (Height h) = [digitsValue h]"
| "spec_heights (Range a b) = [digitsValue a ..< Suc (digitsValue b)]"

text \<open>An item is in range when its numbers are decimal, its first height fits 64 bits and
  its last height is below the largest 64-bit value.\<close>

fun spec_inRange :: "spec_item \<Rightarrow> bool" where
  "spec_inRange (Height h) \<longleftrightarrow> decimal h \<and> digitsValue h < 2 ^ 64 - 1"
| "spec_inRange (Range a b) \<longleftrightarrow>
     decimal a \<and> decimal b \<and> digitsValue a < 2 ^ 64 \<and> digitsValue b < 2 ^ 64 - 1"

text \<open>An item is decimal when its numbers are. It is too large when it is decimal and
  one of its numbers does not fit 64 bits; then the run refuses it with the fatal exit of
  the number that \<^verbatim>\<open>ParseUint\<close> rejects first.\<close>

fun spec_decimalItem :: "spec_item \<Rightarrow> bool" where
  "spec_decimalItem (Height h) \<longleftrightarrow> decimal h"
| "spec_decimalItem (Range a b) \<longleftrightarrow> decimal a \<and> decimal b"

fun spec_tooLarge :: "spec_item \<Rightarrow> bool" where
  "spec_tooLarge (Height h) \<longleftrightarrow> decimal h \<and> 2 ^ 64 \<le> digitsValue h"
| "spec_tooLarge (Range a b) \<longleftrightarrow>
     decimal a \<and> decimal b \<and> (2 ^ 64 \<le> digitsValue a \<or> 2 ^ 64 \<le> digitsValue b)"

fun spec_refusal :: "spec_item \<Rightarrow> fatal" where
  "spec_refusal (Height h) = InvalidHeight h ''value out of range''"
| "spec_refusal (Range a b) =
     (if 2 ^ 64 \<le> digitsValue a then InvalidStart (a @ ''-'' @ b) ''value out of range''
      else InvalidEnd (a @ ''-'' @ b) ''value out of range'')"

subsection \<open>Sample collaborators and configurations\<close>

text \<open>
  Concrete collaborators for the examples: an address is the bytes of its text and the
  empty text is no address; a key of 32 bytes is a secp256k1 key; no connection and no
  constructor fails. The state of the sample service counts the calls of
  \<^verbatim>\<open>ProcessOneBlock\<close>, which fails on the heights listed.
\<close>

definition textBytes :: "string \<Rightarrow> byte list" where
  "textBytes s = map (\<lambda>c. word_of_nat (of_char c)) s"

definition sampleCollaborators :: Collaborators where
  "sampleCollaborators =
     \<lparr>FromString = (\<lambda>s. if s = [] then Inl ''empty address'' else Inr (textBytes s)),
      DecodeString = (\<lambda>d s. if s = [] then Inl ''empty address''
                             else Inr (case d of
                                         NewETHAddressDecoder \<Rightarrow> ETHAddressToAddress (textBytes s)
                                       | NewSOLAddressDecoder \<Rightarrow> SOLAddress (textBytes s))),
      HexToAddress = textBytes,
      BytesToAddress = (\<lambda>b. b),
      PublicKeyFromString = textBytes,
      ToECDSA = (\<lambda>b. if length b = 32 then Inr (length b) else Inl ''invalid length''),
      NewDefaultGRPCConn = (\<lambda>url. None),
      Dial = (\<lambda>url. None),
      NewCashierError = (\<lambda>cashier. None),
      NewServiceError = (\<lambda>service. None),
      StartError = (\<lambda>service. None)\<rparr>"

definition sampleProcessOneBlock :: "uint64 list \<Rightarrow> nat ProcessOneBlock" where
  "sampleProcessOneBlock failing height n =
     (if height \<in> set failing then (Some ''no such block'', Suc n) else (None, Suc n))"

definition sampleCashier :: CashierConfig where
  "sampleCashier =
     \<lparr>cc_ID = ''c1'',
      cc_RelayerURL = '':7000'',
      cc_CashierContractAddress = ''cashier'',
      cc_TokenSafeContractAddress = ''safe'',
      cc_ValidatorContractAddress = ''validator'',
      cc_TransferTableName = ''transfers'',
      cc_TokenPairs = [\<lparr>tp_Token1 = ''t1'', tp_Token2 = ''u1''\<rparr>],
      cc_DecimalRound = [\<lparr>dr_Token1 = ''t1'', dr_Amount = 2\<rparr>],
      cc_StartBlockHeight = 100,
      cc_Reverse = \<lparr>rv_TransferTableName = ''reverse_transfers'',
                    rv_CashierContractAddress = ''reverse_cashier'',
                    rv_Tokens = [''u1'']\<rparr>,
      cc_QPSLimit = 5,
      cc_DisablePull = True\<rparr>"

definition sampleConfig :: Configuration where
  "sampleConfig =
     \<lparr>Chain = ''ethereum'',
      ClientURL = ''client'',
      RelayerURL = ''relayer'',
      Database = ''db'',
      PrivateKey = [],
      SlackWebHook = [],
      LarkWebHook = [],
      ConfirmBlockNumber = 20,
      BatchSize = 100,
      Interval = 60,
      GrpcPort = 9080,
      GrpcProxyPort = 9081,
      DisableTransferSubmit = False,
      Cashiers = [sampleCashier,
                  sampleCashier\<lparr>cc_ID := ''c2'', cc_StartBlockHeight := 7, cc_QPSLimit := 9,
                                cc_DisablePull := False\<rparr>],
      DestinationChain = []\<rparr>"

section \<open>Properties of the governance instruction\<close>

text \<open>
  C1. For every program id and every parameter, \<^verbatim>\<open>ExecuteTransaction\<close> returns the
  instruction whose data is the encoding of the single instruction tag 16 and nothing
  else, and whose accounts are Governance, Proposal, VoteRecord and RecordTranaction of the
  parameter, in this order, followed by the parameter's TransactionAccounts in their given
  order. It returns this instruction whenever the encoder accepts the tag, and it returns
  no other instruction.
\<close>

theorem ExecuteTransaction_layout:
  "(SerializeData kind 16 = Inr d
      \<longrightarrow> ExecuteTransaction kind programID (Some p)
            = Inr \<lparr>ProgramID = programID,
                   Accounts =
                     [\<lparr>PubKey = Governance p, IsSigner = False, IsWritable = False\<rparr>,
                      \<lparr>PubKey = Proposal p, IsSigner = False, IsWritable = False\<rparr>,
                      \<lparr>PubKey = VoteRecord p, IsSigner = False, IsWritable = False\<rparr>,
                      \<lparr>PubKey = RecordTranaction p, IsSigner = False, IsWritable = True\<rparr>]
                     @ TransactionAccounts p,
                   Data = d\<rparr>)
   \<and> (ExecuteTransaction kind programID param = Inr ins
      \<longrightarrow> (\<exists>q g. param = Some q
             \<and> SerializeData kind 16 = Inr g
             \<and> ins = \<lparr>ProgramID = programID,
                      Accounts =
                        [\<lparr>PubKey = Governance q, IsSigner = False, IsWritable = False\<rparr>,
                         \<lparr>PubKey = Proposal q, IsSigner = False, IsWritable = False\<rparr>,
                         \<lparr>PubKey = VoteRecord q, IsSigner = False, IsWritable = False\<rparr>,
                         \<lparr>PubKey = RecordTranaction q, IsSigner = False, IsWritable = True\<rparr>]
                        @ TransactionAccounts q,
                      Data = g\<rparr>))"
  by (auto simp: ExecuteTransaction_def split: sum.splits option.splits)

theorem ExecuteTransaction_layout_witness:
  "SerializeData KindUint8 16 = Inr [16]
   \<and> ExecuteTransaction KindUint8 [9]
       (Some \<lparr>Governance = [1], Proposal = [2], VoteRecord = [3], RecordTranaction = [4],
              TransactionAccounts = [\<lparr>PubKey = [5], IsSigner = True, IsWritable = False\<rparr>]\<rparr>)
     = Inr \<lparr>ProgramID = [9],
            Accounts = [\<lparr>PubKey = [1], IsSigner = False, IsWritable = False\<rparr>,
                        \<lparr>PubKey = [2], IsSigner = False, IsWritable = False\<rparr>,
                        \<lparr>PubKey = [3], IsSigner = False, IsWritable = False\<rparr>,
                        \<lparr>PubKey = [4], IsSigner = False, IsWritable = True\<rparr>,
                        \<lparr>PubKey = [5], IsSigner = True, IsWritable = False\<rparr>],
            Data = [16]\<rparr>"
proof -
  let ?p = "\<lparr>Governance = [1], Proposal = [2], VoteRecord = [3], RecordTranaction = [4],
              TransactionAccounts = [\<lparr>PubKey = [5], IsSigner = True, IsWritable = False\<rparr>]\<rparr>"
  have enc: "SerializeData KindUint8 16 = Inr [16]" by simp
  from ExecuteTransaction_layout [where kind = KindUint8 and d = "[16]" and programID = "[9]"
      and p = ?p] enc
  have "ExecuteTransaction KindUint8 [9] (Some ?p)
      = Inr \<lparr>ProgramID = [9],
             Accounts =
               [\<lparr>PubKey = Governance ?p, IsSigner = False, IsWritable = False\<rparr>,
                \<lparr>PubKey = Proposal ?p, IsSigner = False, IsWritable = False\<rparr>,
                \<lparr>PubKey = VoteRecord ?p, IsSigner = False, IsWritable = False\<rparr>,
                \<lparr>PubKey = RecordTranaction ?p, IsSigner = False, IsWritable = True\<rparr>]
               @ TransactionAccounts ?p,
             Data = [16]\<rparr>"
    by blast
  with enc show ?thesis by simp
qed

text \<open>
  The panic after the encoder is reached exactly when the encoder rejects the tag, which
  depends on the kind of the tag type and on nothing else; a nil parameter panics in the
  dereference.
\<close>

lemma ExecuteTransaction_panics:
  "ExecuteTransaction kind programID param = Inl (SerializePanic err)
     \<longleftrightarrow> SerializeData kind 16 = Inl err"
  "ExecuteTransaction kind programID param = Inl NilPointerDereference
     \<longleftrightarrow> param = None \<and> (\<exists>d. SerializeData kind 16 = Inr d)"
  by (auto simp: ExecuteTransaction_def split: sum.splits option.splits)

section \<open>Properties of the startup\<close>

subsection \<open>Which fatal exits the later stages can take\<close>

lemma HexToECDSA_decodable:
  "HexToECDSA col s = Inr k \<Longrightarrow> \<exists>b. hex_DecodeString s = Inr b"
  by (auto simp: HexToECDSA_def split: sum.splits)















lemma hex_DecodeString_replicate:
  "hex_DecodeString (concat (replicate n ''0a'')) = Inr (replicate n 10)"
  by (induction n) (simp_all add: fromHexChar_def)


subsection \<open>The signature scheme\<close>

text \<open>
  C2, as the source has it. The destination chain alone decides the decoder of destination
  addresses and the kind of sign handler: for \<^verbatim>\<open>"solana"\<close> the Solana decoder, and an
  ed25519 handler when a well-formed private key is configured; for every other value the
  ETH decoder, and a secp256k1 handler when a well-formed private key is configured. With
  an empty private key no sign handler is constructed, on either side. No other
  combination comes out of the switch.
\<close>

theorem main_signHandler_variant:
  "(PrivateKey cfg \<noteq> [] \<and> DestinationChain cfg = ''solana''
      \<and> hex_DecodeString (PrivateKey cfg) = Inr b \<and> length b = ed25519_PrivateKeySize
      \<longrightarrow> main_signHandler col cfg = Inr (Some (NewEd25519SignHandler b), NewSOLAddressDecoder))
   \<and> (PrivateKey cfg \<noteq> [] \<and> DestinationChain cfg \<noteq> ''solana''
      \<and> HexToECDSA col (PrivateKey cfg) = Inr k
      \<longrightarrow> main_signHandler col cfg = Inr (Some (NewSecp256k1SignHandler k), NewETHAddressDecoder))
   \<and> (PrivateKey cfg = []
      \<longrightarrow> main_signHandler col cfg
            = Inr (None, if DestinationChain cfg = ''solana'' then NewSOLAddressDecoder
                         else NewETHAddressDecoder))
   \<and> (main_signHandler col cfg = Inr (signHandler, destAddrDecoder)
      \<longrightarrow> (destAddrDecoder = NewSOLAddressDecoder \<longleftrightarrow> DestinationChain cfg = ''solana'')
          \<and> (destAddrDecoder = NewETHAddressDecoder \<longleftrightarrow> DestinationChain cfg \<noteq> ''solana'')
          \<and> (signHandler = None \<longleftrightarrow> PrivateKey cfg = [])
          \<and> (\<forall>key. signHandler = Some (NewEd25519SignHandler key)
                \<longrightarrow> DestinationChain cfg = ''solana'')
          \<and> (\<forall>key. signHandler = Some (NewSecp256k1SignHandler key)
                \<longrightarrow> DestinationChain cfg \<noteq> ''solana''))"
  by (auto simp: main_signHandler_def split: sum.splits if_splits)

theorem main_signHandler_variant_witness:
  "main_signHandler sampleCollaborators
       (sampleConfig\<lparr>DestinationChain := ''solana'', PrivateKey := concat (replicate 64 ''0a'')\<rparr>)
     = Inr (Some (NewEd25519SignHandler (replicate 64 10)), NewSOLAddressDecoder)
   \<and> main_signHandler sampleCollaborators
       (sampleConfig\<lparr>DestinationChain := ''iotex'', PrivateKey := concat (replicate 32 ''0a'')\<rparr>)
     = Inr (Some (NewSecp256k1SignHandler 32), NewETHAddressDecoder)
   \<and> main_signHandler sampleCollaborators
       (sampleConfig\<lparr>DestinationChain := ''solana'', PrivateKey := []\<rparr>)
     = Inr (None, NewSOLAddressDecoder)"
  using main_signHandler_variant [where col = sampleCollaborators and b = "replicate 64 10"
      and cfg = "sampleConfig\<lparr>DestinationChain := ''solana'',
                              PrivateKey := concat (replicate 64 ''0a'')\<rparr>"]
    main_signHandler_variant [where col = sampleCollaborators and k = 32
      and cfg = "sampleConfig\<lparr>DestinationChain := ''iotex'',
                              PrivateKey := concat (replicate 32 ''0a'')\<rparr>"]
    main_signHandler_variant [where col = sampleCollaborators
      and cfg = "sampleConfig\<lparr>DestinationChain := ''solana'', PrivateKey := []\<rparr>"]
  by (simp add: hex_DecodeString_replicate ed25519_PrivateKeySize_def HexToECDSA_def
      sampleCollaborators_def)


text \<open>
  C2 as stated asks for a secp256k1 handler for every destination chain other than
  \<^verbatim>\<open>"solana"\<close>. With destination chain \<^verbatim>\<open>"ethereum"\<close> and no private key the switch
  returns no sign handler at all.
\<close>

theorem signHandler_without_key_counterexample:
  "main_signHandler sampleCollaborators
       (sampleConfig\<lparr>DestinationChain := ''ethereum'', PrivateKey := []\<rparr>)
     = Inr (None, NewETHAddressDecoder)"
  by (simp add: main_signHandler_def)


subsection \<open>A malformed private key\<close>




subsection \<open>Evaluating the samples\<close>

lemmas sample_defs =
  sampleCollaborators_def sampleConfig_def sampleCashier_def sampleProcessOneBlock_def
  textBytes_def continuously_def

lemmas main_defs =
  main_def main_signHandler_def main_relayerURLs_def relayerURL_of_def main_cashiers_def
  evmChain_def iotexCashier_def ethereumCashier_def solanaCashier_def created_def Let_def

lemma sample_cashiers_length:
  "length (run_cashiers (main sampleCollaborators pob fuel blocksFlag sampleConfig st)) = 2"
  by (simp add: main_defs sample_defs split: prod.splits)

lemma sample_cashiers_length_chain:
  "length (run_cashiers (main sampleCollaborators pob fuel blocksFlag
      (sampleConfig\<lparr>Chain := ''iotex''\<rparr>) st)) = 2"
  "length (run_cashiers (main sampleCollaborators pob fuel blocksFlag
      (sampleConfig\<lparr>Chain := ''solana''\<rparr>) st)) = 2"
  by (simp_all add: main_defs sample_defs split: prod.splits)



section \<open>Properties of the bounded replay\<close>

subsection \<open>The calls of a replay\<close>

lemma processRange_calls:
  "processRange fuel pob h e (st, log) = (ex, st', log') \<Longrightarrow>
     \<exists>new. log' = log @ new \<and>
       ((\<forall>x\<in>set new. snd x = None) \<and> (ex = Done \<or> ex = StillRunning)
        \<or> (\<exists>pre h' err. new = pre @ [(h', Some err)] \<and> (\<forall>x\<in>set pre. snd x = None)
              \<and> ex = Fatal (FailedToProcessBlock h' err)))"
proof (induction fuel arbitrary: h st log)
  case 0
  then show ?case by (auto split: if_splits)
next
  case (Suc fuel)
  show ?case
  proof (cases "h \<le> e")
    case False
    with Suc.prems show ?thesis by auto
  next
    case True
    obtain r s where pob: "pob h st = (r, s)" by (cases "pob h st")
    show ?thesis
    proof (cases r)
      case (Some err)
      with True pob Suc.prems have "log' = log @ [(h, Some err)]"
        and "ex = Fatal (FailedToProcessBlock h err)" by auto
      then show ?thesis by auto
    next
      case None
      with True pob Suc.prems
      have "processRange fuel pob (h + 1) e (s, log @ [(h, None)]) = (ex, st', log')"
        by simp
      from Suc.IH [OF this] obtain new where new: "log' = (log @ [(h, None)]) @ new"
        and cases: "(\<forall>x\<in>set new. snd x = None) \<and> (ex = Done \<or> ex = StillRunning)
          \<or> (\<exists>pre h' err. new = pre @ [(h', Some err)] \<and> (\<forall>x\<in>set pre. snd x = None)
                \<and> ex = Fatal (FailedToProcessBlock h' err))"
        by blast
      from cases show ?thesis
      proof
        assume "(\<forall>x\<in>set new. snd x = None) \<and> (ex = Done \<or> ex = StillRunning)"
        with new show ?thesis by (intro exI [of _ "(h, None) # new"]) auto
      next
        assume "\<exists>pre h' err. new = pre @ [(h', Some err)] \<and> (\<forall>x\<in>set pre. snd x = None)
                \<and> ex = Fatal (FailedToProcessBlock h' err)"
        then obtain pre h' err where "new = pre @ [(h', Some err)]"
          and "\<forall>x\<in>set pre. snd x = None" and "ex = Fatal (FailedToProcessBlock h' err)"
          by blast
        with new show ?thesis
          by (intro exI [of _ "(h, None) # new"]) (auto intro: exI [of _ "(h, None) # pre"])
      qed
    qed
  qed
qed

lemma processItems_calls:
  "processItems fuel pob items (st, log) = (ex, st', log') \<Longrightarrow>
     \<exists>new. log' = log @ new \<and>
       ((\<forall>x\<in>set new. snd x = None)
        \<or> (\<exists>pre h' err. new = pre @ [(h', Some err)] \<and> (\<forall>x\<in>set pre. snd x = None)
              \<and> ex = Fatal (FailedToProcessBlock h' err)))"
proof (induction items arbitrary: st log)
  case Nil
  then show ?case by auto
next
  case (Cons hstr rest)
  show ?case
  proof (cases "parseItem hstr")
    case (Inl f)
    with Cons.prems show ?thesis by auto
  next
    case (Inr range)
    obtain start e where range: "range = (start, e)" by (cases range)
    obtain ex1 st1 log1 where r1: "processRange fuel pob start e (st, log) = (ex1, st1, log1)"
      by (cases "processRange fuel pob start e (st, log)")
    from processRange_calls [OF r1] obtain new1 where new1: "log1 = log @ new1"
      and c1: "(\<forall>x\<in>set new1. snd x = None) \<and> (ex1 = Done \<or> ex1 = StillRunning)
          \<or> (\<exists>pre h' err. new1 = pre @ [(h', Some err)] \<and> (\<forall>x\<in>set pre. snd x = None)
                \<and> ex1 = Fatal (FailedToProcessBlock h' err))"
      by blast
    show ?thesis
    proof (cases "ex1 = Done")
      case False
      with Cons.prems Inr range r1 have "ex = ex1" and "log' = log1"
        by (auto split: exit.splits)
      with new1 c1 show ?thesis by auto
    next
      case True
      with Cons.prems Inr range r1
      have "processItems fuel pob rest (st1, log1) = (ex, st', log')" by simp
      from Cons.IH [OF this] obtain new2 where new2: "log' = log1 @ new2"
        and c2: "(\<forall>x\<in>set new2. snd x = None)
          \<or> (\<exists>pre h' err. new2 = pre @ [(h', Some err)] \<and> (\<forall>x\<in>set pre. snd x = None)
                \<and> ex = Fatal (FailedToProcessBlock h' err))"
        by blast
      from True c1 have n1: "\<forall>x\<in>set new1. snd x = None" by auto
      from c2 show ?thesis
      proof
        assume "\<forall>x\<in>set new2. snd x = None"
        with n1 new1 new2 show ?thesis by (intro exI [of _ "new1 @ new2"]) auto
      next
        assume "\<exists>pre h' err. new2 = pre @ [(h', Some err)] \<and> (\<forall>x\<in>set pre. snd x = None)
                \<and> ex = Fatal (FailedToProcessBlock h' err)"
        then obtain pre h' err where "new2 = pre @ [(h', Some err)]"
          and "\<forall>x\<in>set pre. snd x = None" and "ex = Fatal (FailedToProcessBlock h' err)"
          by blast
        with n1 new1 new2 show ?thesis
          by (intro exI [of _ "new1 @ new2"]) (auto intro: exI [of _ "new1 @ pre"])
      qed
    qed
  qed
qed

lemma main_replay:
  "run_calls (main col pob fuel blocksFlag cfg st) = []
   \<or> (blocksFlag \<noteq> continuously
       \<and> processItems fuel pob (Split blocksFlag) (st, [])
           = (run_exit (main col pob fuel blocksFlag cfg st),
              run_state (main col pob fuel blocksFlag cfg st),
              run_calls (main col pob fuel blocksFlag cfg st)))"
  unfolding main_def Let_def
  by (auto split: sum.splits prod.splits option.splits)


lemma processRange_step:
  "processRange fuel pob height e (st, log) =
     (if height \<le> e then
        (case fuel of
           0 \<Rightarrow> (StillRunning, st, log)
         | Suc n \<Rightarrow>
             (case pob height st of
                (Some err, st') \<Rightarrow>
                  (Fatal (FailedToProcessBlock height err), st', log @ [(height, Some err)])
              | (None, st') \<Rightarrow> processRange n pob (height + 1) e (st', log @ [(height, None)])))
      else (Done, st, log))"
  by (cases fuel) simp_all

lemmas replay_defs =
  parseItem_def FindStringSubmatch_def isDigit_def ParseUint_def digitsValue_def

lemma sample_replay:
  "blocksFlag \<noteq> continuously \<Longrightarrow>
     processItems fuel pob (Split blocksFlag) (st, [])
       = (run_exit (main sampleCollaborators pob fuel blocksFlag sampleConfig st),
          run_state (main sampleCollaborators pob fuel blocksFlag sampleConfig st),
          run_calls (main sampleCollaborators pob fuel blocksFlag sampleConfig st))"
  by (simp add: main_defs sample_defs split: prod.splits)

text \<open>
  C6. In a run of \<^verbatim>\<open>main\<close>, a call of \<^verbatim>\<open>ProcessOneBlock\<close> that returns an error is the
  last call of the run, and the run ends there with the fatal exit for that height: no
  height after it is processed, in its range or in a later item of the argument.
\<close>

theorem replay_stops_at_first_error:
  assumes "i < length (run_calls (main col pob fuel blocksFlag cfg st))"
    and "snd (run_calls (main col pob fuel blocksFlag cfg st) ! i) = Some err"
  shows "Suc i = length (run_calls (main col pob fuel blocksFlag cfg st))
     \<and> run_exit (main col pob fuel blocksFlag cfg st)
         = Fatal (FailedToProcessBlock
                    (fst (run_calls (main col pob fuel blocksFlag cfg st) ! i)) err)"
proof -
  let ?r = "main col pob fuel blocksFlag cfg st"
  from assms(1) main_replay [of col pob fuel blocksFlag cfg st]
  have "processItems fuel pob (Split blocksFlag) (st, [])
          = (run_exit ?r, run_state ?r, run_calls ?r)"
    by auto
  from processItems_calls [OF this]
  have "(\<forall>x\<in>set (run_calls ?r). snd x = None)
     \<or> (\<exists>pre h' e. run_calls ?r = pre @ [(h', Some e)] \<and> (\<forall>x\<in>set pre. snd x = None)
           \<and> run_exit ?r = Fatal (FailedToProcessBlock h' e))"
    by simp
  then show ?thesis
  proof
    assume "\<forall>x\<in>set (run_calls ?r). snd x = None"
    with assms show ?thesis by (metis nth_mem option.distinct(1))
  next
    assume "\<exists>pre h' e. run_calls ?r = pre @ [(h', Some e)] \<and> (\<forall>x\<in>set pre. snd x = None)
           \<and> run_exit ?r = Fatal (FailedToProcessBlock h' e)"
    then obtain pre h' e where log: "run_calls ?r = pre @ [(h', Some e)]"
      and pre: "\<forall>x\<in>set pre. snd x = None"
      and ex: "run_exit ?r = Fatal (FailedToProcessBlock h' e)"
      by blast
    have "\<not> i < length pre"
    proof
      assume "i < length pre"
      with log have "run_calls ?r ! i = pre ! i" by (simp add: nth_append)
      with pre \<open>i < length pre\<close> assms(2) show False by (metis nth_mem option.distinct(1))
    qed
    with assms(1) log have i: "i = length pre" by simp
    with log assms(2) have "e = err" by simp
    with i log ex show ?thesis by simp
  qed
qed


theorem replay_stops_at_first_error_witness:
  "run_calls (main sampleCollaborators (sampleProcessOneBlock [5]) 50 ''3-9,20'' sampleConfig 0)
     = [(3, None), (4, None), (5, Some ''no such block'')]
   \<and> run_exit (main sampleCollaborators (sampleProcessOneBlock [5]) 50 ''3-9,20'' sampleConfig 0)
     = Fatal (FailedToProcessBlock 5 ''no such block'')"
proof -
  let ?r = "main sampleCollaborators (sampleProcessOneBlock [5]) 50 ''3-9,20'' sampleConfig 0"
  have "processItems 50 (sampleProcessOneBlock [5]) (Split ''3-9,20'') (0, [])
      = (Fatal (FailedToProcessBlock 5 ''no such block''), 3,
         [(3, None), (4, None), (5, Some ''no such block'')])"
    by (simp add: replay_defs processRange_step sampleProcessOneBlock_def)
  with sample_replay [of "''3-9,20''" 50 "sampleProcessOneBlock [5]" 0]
  have calls: "run_calls ?r = [(3, None), (4, None), (5, Some ''no such block'')]"
    by (simp add: continuously_def)
  then have "2 < length (run_calls ?r)" and "snd (run_calls ?r ! 2) = Some ''no such block''"
    by simp_all
  from replay_stops_at_first_error [OF this] calls show ?thesis by simp
qed


subsection \<open>The heights of a replay\<close>

lemma Split_no_comma: "CHR '','' \<notin> set s \<Longrightarrow> Split s = [s]"
  by (induction s) auto

lemma Split_comma: "CHR '','' \<notin> set a \<Longrightarrow> Split (a @ '','' @ s) = a # Split s"
  by (induction a) auto

lemma digits_no_comma:
  assumes "list_all isDigit s"
  shows "CHR '','' \<notin> set s"
proof
  assume "CHR '','' \<in> set s"
  with assms have "isDigit CHR '',''" by (simp add: list_all_iff)
  then show False by (simp add: isDigit_def)
qed

lemma digits_no_hyphen:
  assumes "list_all isDigit s"
  shows "CHR ''-'' \<notin> set s"
proof
  assume "CHR ''-'' \<in> set s"
  with assms have "isDigit CHR ''-''" by (simp add: list_all_iff)
  then show False by (simp add: isDigit_def)
qed

lemma spec_inRange_decimalItem: "spec_inRange item \<Longrightarrow> spec_decimalItem item"
  by (cases item) simp_all

lemma spec_tooLarge_decimalItem: "spec_tooLarge item \<Longrightarrow> spec_decimalItem item"
  by (cases item) simp_all

lemma spec_text_no_comma: "spec_decimalItem item \<Longrightarrow> CHR '','' \<notin> set (spec_text item)"
  by (cases item) (auto simp: decimal_def dest: digits_no_comma)

lemma Split_spec_join:
  "xs \<noteq> [] \<Longrightarrow> \<forall>x\<in>set xs. CHR '','' \<notin> set x \<Longrightarrow> Split (spec_join xs) = xs"
proof (induction xs rule: spec_join.induct)
  case 1
  then show ?case by simp
next
  case (2 x)
  then show ?case by (simp add: Split_no_comma)
next
  case (3 x y rest)
  then have "Split (spec_join (y # rest)) = y # rest" by simp
  moreover from 3 have "CHR '','' \<notin> set x" by simp
  ultimately show ?case using Split_comma [of x "spec_join (y # rest)"] by simp
qed

lemma Split_spec_blocks:
  "items \<noteq> [] \<Longrightarrow> \<forall>item\<in>set items. spec_decimalItem item
     \<Longrightarrow> Split (spec_blocks items) = map spec_text items"
  unfolding spec_blocks_def
  by (rule Split_spec_join) (auto dest: spec_text_no_comma)

lemma ParseUint_decimal:
  "decimal s \<Longrightarrow> digitsValue s < 2 ^ 64 \<Longrightarrow> ParseUint s = Inr (word_of_nat (digitsValue s))"
  by (simp add: ParseUint_def decimal_def)

lemma ParseUint_too_large:
  "decimal s \<Longrightarrow> 2 ^ 64 \<le> digitsValue s \<Longrightarrow> ParseUint s = Inl ''value out of range''"
  by (simp add: ParseUint_def decimal_def)

lemma FindStringSubmatch_digits: "list_all isDigit s \<Longrightarrow> FindStringSubmatch s = None"
proof -
  assume "list_all isDigit s"
  then have "dropWhile isDigit s = []" by (simp add: list_all_iff)
  then show ?thesis by (simp only: FindStringSubmatch_def list.case)
qed

lemma FindStringSubmatch_range:
  assumes "list_all isDigit a" and "list_all isDigit b"
  shows "FindStringSubmatch (a @ CHR ''-'' # b) = Some (a, b)"
proof -
  have nd: "\<not> isDigit CHR ''-''" by (simp add: isDigit_def)
  from assms(1) have "dropWhile isDigit (a @ CHR ''-'' # b) = CHR ''-'' # b"
    using nd by (simp add: dropWhile_append3 list_all_iff)
  moreover from assms(1) have "takeWhile isDigit (a @ CHR ''-'' # b) = a"
    using nd by (simp add: takeWhile_tail list_all_iff)
  ultimately show ?thesis using assms(2)
    by (simp only: FindStringSubmatch_def list.case simp_thms if_True)
qed

lemma parseItem_spec:
  assumes "spec_inRange item"
  shows "\<exists>a b. parseItem (spec_text item) = Inr (word_of_nat a, word_of_nat b)
           \<and> a < 2 ^ 64 \<and> b < 2 ^ 64 - 1 \<and> spec_heights item = [a ..< Suc b]"
proof (cases item)
  case (Height h)
  with assms have d: "decimal h" and v: "digitsValue h < 2 ^ 64 - 1" by simp_all
  then have "parseItem h = Inr (word_of_nat (digitsValue h), word_of_nat (digitsValue h))"
    by (simp add: parseItem_def FindStringSubmatch_digits ParseUint_decimal decimal_def)
  with Height v show ?thesis by (intro exI [of _ "digitsValue h"]) simp
next
  case (Range a b)
  with assms have d: "decimal a" "decimal b"
    and v: "digitsValue a < 2 ^ 64" "digitsValue b < 2 ^ 64 - 1" by simp_all
  then have "parseItem (a @ ''-'' @ b)
      = Inr (word_of_nat (digitsValue a), word_of_nat (digitsValue b))"
    by (simp add: parseItem_def FindStringSubmatch_range ParseUint_decimal decimal_def)
  with Range v show ?thesis
    by (intro exI [of _ "digitsValue a"] exI [of _ "digitsValue b"]) simp
qed

lemma parseItem_too_large:
  assumes "spec_tooLarge item"
  shows "parseItem (spec_text item) = Inl (spec_refusal item)"
proof (cases item)
  case (Height h)
  with assms have "decimal h" and "2 ^ 64 \<le> digitsValue h" by simp_all
  then have "parseItem h = Inl (InvalidHeight h ''value out of range'')"
    by (simp add: parseItem_def FindStringSubmatch_digits ParseUint_too_large decimal_def)
  with Height show ?thesis by simp
next
  case (Range a b)
  with assms have d: "decimal a" "decimal b"
    and large: "2 ^ 64 \<le> digitsValue a \<or> 2 ^ 64 \<le> digitsValue b" by simp_all
  from d have sub: "FindStringSubmatch (a @ CHR ''-'' # b) = Some (a, b)"
    by (simp add: FindStringSubmatch_range decimal_def)
  show ?thesis
  proof (cases "2 ^ 64 \<le> digitsValue a")
    case True
    with d have "ParseUint a = Inl ''value out of range''" by (simp add: ParseUint_too_large)
    with sub True Range show ?thesis by (simp add: parseItem_def)
  next
    case False
    with d have a: "ParseUint a = Inr (word_of_nat (digitsValue a))"
      by (simp add: ParseUint_decimal)
    from False large d have "ParseUint b = Inl ''value out of range''"
      by (simp add: ParseUint_too_large)
    with sub a False Range show ?thesis by (simp add: parseItem_def)
  qed
qed

lemma processRange_bounded:
  assumes "unat e < 2 ^ 64 - 1"
  shows "Suc (unat e) - unat h \<le> fuel \<Longrightarrow>
     (\<exists>st'. processRange fuel pob h e (st, log)
        = (Done, st', log @ map (\<lambda>n. (word_of_nat n, None)) [unat h ..< Suc (unat e)]))
     \<or> (\<exists>ex st' new. processRange fuel pob h e (st, log) = (ex, st', log @ new)
           \<and> (\<exists>x\<in>set new. snd x \<noteq> None))"
proof (induction fuel arbitrary: h st log)
  case 0
  then have gt: "unat e < unat h" by simp
  then have "\<not> h \<le> e" by (simp add: word_le_nat_alt)
  moreover from gt have "[unat h ..< Suc (unat e)] = []" by (simp del: upt_Suc)
  ultimately show ?case by (simp del: upt_Suc)
next
  case (Suc fuel)
  show ?case
  proof (cases "h \<le> e")
    case False
    then have "unat e < unat h" by (simp add: word_le_nat_alt)
    then have "[unat h ..< Suc (unat e)] = []" by (simp del: upt_Suc)
    with False show ?thesis by (simp del: upt_Suc)
  next
    case True
    obtain r s where pob: "pob h st = (r, s)" by (cases "pob h st")
    show ?thesis
    proof (cases r)
      case (Some err)
      with True pob have "processRange (Suc fuel) pob h e (st, log)
          = (Fatal (FailedToProcessBlock h err), s, log @ [(h, Some err)])"
        by simp
      moreover have "\<exists>x\<in>set [(h, Some err)]. snd x \<noteq> None" by simp
      ultimately show ?thesis by blast
    next
      case None
      from True have le: "unat h \<le> unat e" by (simp add: word_le_nat_alt)
      with assms have "unat h + 1 < 2 ^ 64" by simp
      then have next_h: "unat (h + 1) = Suc (unat h)"
        by (simp add: unat_word_ariths)
      from True pob None have step: "processRange (Suc fuel) pob h e (st, log)
          = processRange fuel pob (h + 1) e (s, log @ [(h, None)])"
        by simp
      from Suc.prems next_h have "Suc (unat e) - unat (h + 1) \<le> fuel" by simp
      from Suc.IH [OF this, of s "log @ [(h, None)]"]
      show ?thesis
      proof
        assume "\<exists>st'. processRange fuel pob (h + 1) e (s, log @ [(h, None)])
          = (Done, st', (log @ [(h, None)])
               @ map (\<lambda>n. (word_of_nat n, None)) [unat (h + 1) ..< Suc (unat e)])"
        then obtain st' where ih:
          "processRange fuel pob (h + 1) e (s, log @ [(h, None)])
             = (Done, st', (log @ [(h, None)])
                  @ map (\<lambda>n. (word_of_nat n, None)) [unat (h + 1) ..< Suc (unat e)])"
          by blast
        from le next_h have "[unat h ..< Suc (unat e)] = unat h # [unat (h + 1) ..< Suc (unat e)]"
          by (simp add: upt_conv_Cons del: upt_Suc)
        then have "log @ map (\<lambda>n. (word_of_nat n, None)) [unat h ..< Suc (unat e)]
            = (log @ [(h, None)])
                @ map (\<lambda>n. (word_of_nat n, None)) [unat (h + 1) ..< Suc (unat e)]"
          by (simp del: upt_Suc)
        with step ih show ?thesis by (simp only:) blast
      next
        assume "\<exists>ex st' new. processRange fuel pob (h + 1) e (s, log @ [(h, None)])
              = (ex, st', (log @ [(h, None)]) @ new) \<and> (\<exists>x\<in>set new. snd x \<noteq> None)"
        then obtain ex st' new where
          r: "processRange fuel pob (h + 1) e (s, log @ [(h, None)])
              = (ex, st', (log @ [(h, None)]) @ new)"
          and bad: "\<exists>x\<in>set new. snd x \<noteq> None"
          by blast
        from step r have "processRange (Suc fuel) pob h e (st, log)
            = (ex, st', log @ ((h, None) # new))"
          by simp
        moreover from bad have "\<exists>x\<in>set ((h, None) # new). snd x \<noteq> None" by auto
        ultimately show ?thesis by blast
      qed
    qed
  qed
qed

lemma processItems_prefix:
  "\<forall>item\<in>set pre. spec_inRange item \<and> length (spec_heights item) \<le> fuel \<Longrightarrow>
     (\<exists>st'. processItems fuel pob (map spec_text pre @ rest) (st, log)
        = processItems fuel pob rest
            (st', log @ map (\<lambda>n. (word_of_nat n, None)) (concat (map spec_heights pre))))
     \<or> (\<exists>ex st' new. processItems fuel pob (map spec_text pre @ rest) (st, log)
            = (ex, st', log @ new)
           \<and> (\<exists>x\<in>set new. snd x \<noteq> None))"
proof (induction pre arbitrary: st log)
  case Nil
  have "processItems fuel pob (map spec_text [] @ rest) (st, log)
      = processItems fuel pob rest
          (st, log @ map (\<lambda>n. (word_of_nat n, None)) (concat (map spec_heights [])))"
    by simp
  then show ?case by blast
next
  case (Cons item pre)
  then have "spec_inRange item" and fuel: "length (spec_heights item) \<le> fuel" by simp_all
  from parseItem_spec [OF this(1)] obtain a b where
    parse: "parseItem (spec_text item) = Inr (word_of_nat a, word_of_nat b)"
    and a: "a < 2 ^ 64" and b: "b < 2 ^ 64 - 1" and hs: "spec_heights item = [a ..< Suc b]"
    by blast
  have ua: "unat (word_of_nat a :: uint64) = a" and ub: "unat (word_of_nat b :: uint64) = b"
    using a b by (simp_all add: unat_of_nat)
  from fuel hs have "Suc b - a \<le> fuel" by (simp del: upt_Suc)
  with ua ub
  have enough: "Suc (unat (word_of_nat b :: uint64)) - unat (word_of_nat a :: uint64) \<le> fuel"
    by simp
  from b ub have small: "unat (word_of_nat b :: uint64) < 2 ^ 64 - 1" by simp
  from Cons.prems
  have rest_ok: "\<forall>item\<in>set pre. spec_inRange item \<and> length (spec_heights item) \<le> fuel"
    by simp
  let ?E = "\<lambda>xs. map (\<lambda>n. (word_of_nat n :: uint64, None :: string option)) xs"
  from processRange_bounded [OF small enough, of pob st log]
  show ?case
  proof
    assume "\<exists>st'. processRange fuel pob (word_of_nat a) (word_of_nat b) (st, log)
       = (Done, st', log @ ?E [unat (word_of_nat a :: uint64) ..< Suc (unat (word_of_nat b :: uint64))])"
    then obtain st1 where
      "processRange fuel pob (word_of_nat a) (word_of_nat b) (st, log)
         = (Done, st1, log @ ?E [unat (word_of_nat a :: uint64) ..< Suc (unat (word_of_nat b :: uint64))])"
      by blast
    then have r1: "processRange fuel pob (word_of_nat a) (word_of_nat b) (st, log)
         = (Done, st1, log @ ?E [a ..< Suc b])"
      by (simp only: ua ub)
    have first: "processItems fuel pob (map spec_text (item # pre) @ rest) (st, log)
        = processItems fuel pob (map spec_text pre @ rest) (st1, log @ ?E [a ..< Suc b])"
      by (simp only: list.map append_Cons processItems.simps parse r1 sum.case prod.case
          exit.case)
    have split: "log @ ?E (concat (map spec_heights (item # pre)))
        = (log @ ?E [a ..< Suc b]) @ ?E (concat (map spec_heights pre))"
      using hs by (simp del: upt_Suc)
    from Cons.IH [OF rest_ok, of st1 "log @ ?E [a ..< Suc b]"]
    show ?thesis
    proof
      assume "\<exists>st'. processItems fuel pob (map spec_text pre @ rest) (st1, log @ ?E [a ..< Suc b])
          = processItems fuel pob rest
              (st', (log @ ?E [a ..< Suc b]) @ ?E (concat (map spec_heights pre)))"
      with first split show ?thesis by (simp only:) blast
    next
      assume "\<exists>ex st' new.
          processItems fuel pob (map spec_text pre @ rest) (st1, log @ ?E [a ..< Suc b])
            = (ex, st', (log @ ?E [a ..< Suc b]) @ new)
          \<and> (\<exists>x\<in>set new. snd x \<noteq> None)"
      then obtain ex st' new where
        r: "processItems fuel pob (map spec_text pre @ rest) (st1, log @ ?E [a ..< Suc b])
            = (ex, st', (log @ ?E [a ..< Suc b]) @ new)"
        and bad: "\<exists>x\<in>set new. snd x \<noteq> None"
        by blast
      from first r have "processItems fuel pob (map spec_text (item # pre) @ rest) (st, log)
          = (ex, st', log @ (?E [a ..< Suc b] @ new))"
        by simp
      moreover from bad have "\<exists>x\<in>set (?E [a ..< Suc b] @ new). snd x \<noteq> None" by auto
      ultimately show ?thesis by blast
    qed
  next
    assume "\<exists>ex st' new. processRange fuel pob (word_of_nat a) (word_of_nat b) (st, log)
        = (ex, st', log @ new) \<and> (\<exists>x\<in>set new. snd x \<noteq> None)"
    then obtain ex st' new where
      r: "processRange fuel pob (word_of_nat a) (word_of_nat b) (st, log) = (ex, st', log @ new)"
      and bad: "\<exists>x\<in>set new. snd x \<noteq> None"
      by blast
    have "ex \<noteq> Done"
    proof
      assume "ex = Done"
      with r processRange_calls [OF r] bad show False by auto
    qed
    with r parse have "processItems fuel pob (map spec_text (item # pre) @ rest) (st, log)
        = (ex, st', log @ new)"
      by (cases ex) simp_all
    with bad show ?thesis by blast
  qed
qed

lemma spec_blocks_not_continuously:
  assumes "items \<noteq> []" and "\<forall>item\<in>set items. spec_decimalItem item"
  shows "spec_blocks items \<noteq> continuously"
proof
  assume eq: "spec_blocks items = continuously"
  have "Split continuously = [continuously]"
    by (rule Split_no_comma) (simp add: continuously_def)
  with eq Split_spec_blocks [OF assms] have "map spec_text items = [continuously]" by simp
  then obtain item where "item \<in> set items" and itemText: "spec_text item = continuously"
    by (cases items) auto
  with assms(2) have dec: "spec_decimalItem item" by blast
  show False
  proof (cases item)
    case (Height h)
    with itemText dec have "list_all isDigit ''continuously''"
      by (simp add: decimal_def continuously_def)
    then show False by (simp add: isDigit_def)
  next
    case (Range a b)
    with itemText have "a @ CHR ''-'' # b = continuously" by simp
    then have "CHR ''-'' \<in> set continuously" by (metis in_set_conv_decomp)
    then show False by (simp add: continuously_def)
  qed
qed

lemma main_started_replay:
  assumes "run_started (main col pob fuel blocksFlag cfg st)" and "blocksFlag \<noteq> continuously"
  shows "processItems fuel pob (Split blocksFlag) (st, [])
           = (run_exit (main col pob fuel blocksFlag cfg st),
              run_state (main col pob fuel blocksFlag cfg st),
              run_calls (main col pob fuel blocksFlag cfg st))"
  using assms unfolding main_def Let_def
  by (auto split: sum.splits prod.splits option.splits)

lemma sample_started:
  "run_started (main sampleCollaborators pob fuel blocksFlag sampleConfig st)"
  by (simp add: main_defs sample_defs split: prod.splits)

lemma replay_prefix:
  assumes pre: "\<forall>item\<in>set pre. spec_inRange item \<and> length (spec_heights item) \<le> fuel"
    and rest: "\<forall>item\<in>set rest. spec_decimalItem item"
    and nonempty: "pre @ rest \<noteq> []"
    and started: "run_started (main col pob fuel (spec_blocks (pre @ rest)) cfg st)"
    and nofail: "\<forall>x\<in>set (run_calls (main col pob fuel (spec_blocks (pre @ rest)) cfg st)).
                   snd x = None"
  shows "\<exists>st'. (run_exit (main col pob fuel (spec_blocks (pre @ rest)) cfg st),
               run_state (main col pob fuel (spec_blocks (pre @ rest)) cfg st),
               run_calls (main col pob fuel (spec_blocks (pre @ rest)) cfg st))
           = processItems fuel pob (map spec_text rest)
               (st', map (\<lambda>n. (word_of_nat n, None)) (concat (map spec_heights pre)))"
proof -
  let ?r = "main col pob fuel (spec_blocks (pre @ rest)) cfg st"
  from pre rest have dec: "\<forall>item\<in>set (pre @ rest). spec_decimalItem item"
    by (auto dest: spec_inRange_decimalItem)
  from Split_spec_blocks [OF nonempty dec]
  have split: "Split (spec_blocks (pre @ rest)) = map spec_text pre @ map spec_text rest"
    by simp
  from main_started_replay [OF started spec_blocks_not_continuously [OF nonempty dec]] split
  have run: "processItems fuel pob (map spec_text pre @ map spec_text rest) (st, [])
      = (run_exit ?r, run_state ?r, run_calls ?r)"
    by simp
  from processItems_prefix [OF pre, of pob "map spec_text rest" st "[]"]
  show ?thesis
  proof
    assume "\<exists>st'. processItems fuel pob (map spec_text pre @ map spec_text rest) (st, [])
        = processItems fuel pob (map spec_text rest)
            (st', [] @ map (\<lambda>n. (word_of_nat n, None)) (concat (map spec_heights pre)))"
    with run show ?thesis by simp
  next
    assume "\<exists>ex st' new.
        processItems fuel pob (map spec_text pre @ map spec_text rest) (st, [])
          = (ex, st', [] @ new) \<and> (\<exists>x\<in>set new. snd x \<noteq> None)"
    with run have "\<exists>x\<in>set (run_calls ?r). snd x \<noteq> None" by auto
    with nofail have False by auto
    then show ?thesis ..
  qed
qed

text \<open>
  C10, as the source has it. Let the \<^verbatim>\<open>-blocks\<close> argument be a comma-separated list of
  items, each a decimal height \<open>h\<close> or a range \<open>a-b\<close> of decimal numbers, and let no call
  of \<^verbatim>\<open>ProcessOneBlock\<close> made in the run fail. If every first height fits 64 bits
  and every last height is below \<open>2^64 - 1\<close>, a run that reaches the replay calls
  \<^verbatim>\<open>ProcessOneBlock\<close> exactly on the heights of the items, item after item from left to
  right: once on \<open>h\<close> for a single height, once on each of \<open>a, a+1, ..., b\<close> in ascending
  order for a range, not at all for a range with \<open>a > b\<close>; and the run ends with \<open>Done\<close>.
  If the items up to some item are such and that item has a number of \<open>2^64\<close> or more,
  single height or range, the run makes the calls of the items before it, none for the
  item itself or for a later one, and ends with the fatal exit that refuses the number.
  The bound on the number of calls must be at least the length of the longest range
  processed.
\<close>

theorem replay_heights:
  "(items \<noteq> []
      \<and> (\<forall>item\<in>set items. spec_inRange item \<and> length (spec_heights item) \<le> fuel)
      \<and> run_started (main col pob fuel (spec_blocks items) cfg st)
      \<and> (\<forall>x\<in>set (run_calls (main col pob fuel (spec_blocks items) cfg st)). snd x = None)
    \<longrightarrow> run_calls (main col pob fuel (spec_blocks items) cfg st)
          = map (\<lambda>n. (word_of_nat n, None)) (concat (map spec_heights items))
        \<and> run_exit (main col pob fuel (spec_blocks items) cfg st) = Done)
   \<and> ((\<forall>item\<in>set pre. spec_inRange item \<and> length (spec_heights item) \<le> fuel)
      \<and> spec_tooLarge bad
      \<and> (\<forall>item\<in>set post. spec_decimalItem item)
      \<and> run_started (main col pob fuel (spec_blocks (pre @ bad # post)) cfg st)
      \<and> (\<forall>x\<in>set (run_calls (main col pob fuel (spec_blocks (pre @ bad # post)) cfg st)).
            snd x = None)
    \<longrightarrow> run_calls (main col pob fuel (spec_blocks (pre @ bad # post)) cfg st)
          = map (\<lambda>n. (word_of_nat n, None)) (concat (map spec_heights pre))
        \<and> run_exit (main col pob fuel (spec_blocks (pre @ bad # post)) cfg st)
          = Fatal (spec_refusal bad))"
proof (rule conjI; rule impI)
  assume a: "items \<noteq> []
      \<and> (\<forall>item\<in>set items. spec_inRange item \<and> length (spec_heights item) \<le> fuel)
      \<and> run_started (main col pob fuel (spec_blocks items) cfg st)
      \<and> (\<forall>x\<in>set (run_calls (main col pob fuel (spec_blocks items) cfg st)). snd x = None)"
  then have "items @ [] \<noteq> []"
    and "\<forall>item\<in>set items. spec_inRange item \<and> length (spec_heights item) \<le> fuel"
    and "\<forall>item\<in>set ([] :: spec_item list). spec_decimalItem item"
    and "run_started (main col pob fuel (spec_blocks (items @ [])) cfg st)"
    and "\<forall>x\<in>set (run_calls (main col pob fuel (spec_blocks (items @ [])) cfg st)). snd x = None"
    by simp_all
  from replay_prefix [OF this(2) this(3) this(1) this(4) this(5)]
  show "run_calls (main col pob fuel (spec_blocks items) cfg st)
          = map (\<lambda>n. (word_of_nat n, None)) (concat (map spec_heights items))
        \<and> run_exit (main col pob fuel (spec_blocks items) cfg st) = Done"
    by auto
next
  assume b: "(\<forall>item\<in>set pre. spec_inRange item \<and> length (spec_heights item) \<le> fuel)
      \<and> spec_tooLarge bad
      \<and> (\<forall>item\<in>set post. spec_decimalItem item)
      \<and> run_started (main col pob fuel (spec_blocks (pre @ bad # post)) cfg st)
      \<and> (\<forall>x\<in>set (run_calls (main col pob fuel (spec_blocks (pre @ bad # post)) cfg st)).
            snd x = None)"
  then have pre: "\<forall>item\<in>set pre. spec_inRange item \<and> length (spec_heights item) \<le> fuel"
    and large: "spec_tooLarge bad"
    and rest: "\<forall>item\<in>set (bad # post). spec_decimalItem item"
    and nonempty: "pre @ bad # post \<noteq> []"
    and started: "run_started (main col pob fuel (spec_blocks (pre @ bad # post)) cfg st)"
    and nofail: "\<forall>x\<in>set (run_calls (main col pob fuel (spec_blocks (pre @ bad # post)) cfg st)).
            snd x = None"
    by (simp_all add: spec_tooLarge_decimalItem)
  from replay_prefix [OF pre rest nonempty started nofail] obtain st' where
    "(run_exit (main col pob fuel (spec_blocks (pre @ bad # post)) cfg st),
      run_state (main col pob fuel (spec_blocks (pre @ bad # post)) cfg st),
      run_calls (main col pob fuel (spec_blocks (pre @ bad # post)) cfg st))
       = processItems fuel pob (map spec_text (bad # post))
           (st', map (\<lambda>n. (word_of_nat n, None)) (concat (map spec_heights pre)))"
    by blast
  with parseItem_too_large [OF large]
  show "run_calls (main col pob fuel (spec_blocks (pre @ bad # post)) cfg st)
          = map (\<lambda>n. (word_of_nat n, None)) (concat (map spec_heights pre))
        \<and> run_exit (main col pob fuel (spec_blocks (pre @ bad # post)) cfg st)
          = Fatal (spec_refusal bad)"
    by simp
qed

theorem replay_heights_witness:
  "run_calls (main sampleCollaborators (sampleProcessOneBlock [1000]) 50 ''3-5,20,9-8,007''
       sampleConfig 0)
     = [(3, None), (4, None), (5, None), (20, None), (7, None)]
   \<and> run_exit (main sampleCollaborators (sampleProcessOneBlock [1000]) 50 ''3-5,20,9-8,007''
       sampleConfig 0) = Done
   \<and> run_calls (main sampleCollaborators (sampleProcessOneBlock [1000]) 50
       ''3-4,5-18446744073709551616,7'' sampleConfig 0)
     = [(3, None), (4, None)]
   \<and> run_exit (main sampleCollaborators (sampleProcessOneBlock [1000]) 50
       ''3-4,5-18446744073709551616,7'' sampleConfig 0)
     = Fatal (InvalidEnd ''5-18446744073709551616'' ''value out of range'')"
proof -
  let ?pob = "sampleProcessOneBlock [1000]"
  let ?items = "[Range ''3'' ''5'', Height ''20'', Range ''9'' ''8'', Height ''007'']"
  let ?pre = "[Range ''3'' ''4'']"
  let ?bad = "Range ''5'' ''18446744073709551616''"
  let ?post = "[Height ''7'']"
  have blocks: "spec_blocks ?items = ''3-5,20,9-8,007''"
    "spec_blocks (?pre @ ?bad # ?post) = ''3-4,5-18446744073709551616,7''"
    by (simp_all add: spec_blocks_def)
  have inRange: "\<forall>item\<in>set ?items. spec_inRange item \<and> length (spec_heights item) \<le> 50"
    "\<forall>item\<in>set ?pre. spec_inRange item \<and> length (spec_heights item) \<le> 50"
    by (simp_all add: decimal_def isDigit_def digitsValue_def)
  have large: "spec_tooLarge ?bad" and post: "\<forall>item\<in>set ?post. spec_decimalItem item"
    by (simp_all add: decimal_def isDigit_def digitsValue_def)
  have refusal: "spec_refusal ?bad = InvalidEnd ''5-18446744073709551616'' ''value out of range''"
    by (simp add: digitsValue_def)
  have started: "run_started (main sampleCollaborators ?pob 50 (spec_blocks ?items) sampleConfig 0)"
    "run_started (main sampleCollaborators ?pob 50 (spec_blocks (?pre @ ?bad # ?post))
       sampleConfig 0)"
    by (rule sample_started)+
  have "processItems 50 ?pob (Split ''3-5,20,9-8,007'') (0, [])
      = (Done, 5, [(3, None), (4, None), (5, None), (20, None), (7, None)])"
    by (simp add: replay_defs processRange_step sampleProcessOneBlock_def)
  with sample_replay [of "''3-5,20,9-8,007''" 50 ?pob 0]
  have calls1: "run_calls (main sampleCollaborators ?pob 50 ''3-5,20,9-8,007'' sampleConfig 0)
      = [(3, None), (4, None), (5, None), (20, None), (7, None)]"
    by (simp add: continuously_def)
  have "processItems 50 ?pob (Split ''3-4,5-18446744073709551616,7'') (0, [])
      = (Fatal (InvalidEnd ''5-18446744073709551616'' ''value out of range''), 2,
         [(3, None), (4, None)])"
    by (simp add: replay_defs processRange_step sampleProcessOneBlock_def)
  with sample_replay [of "''3-4,5-18446744073709551616,7''" 50 ?pob 0]
  have calls2: "run_calls (main sampleCollaborators ?pob 50 ''3-4,5-18446744073709551616,7''
        sampleConfig 0) = [(3, None), (4, None)]"
    by (simp add: continuously_def)
  have nofail1: "\<forall>x\<in>set (run_calls (main sampleCollaborators ?pob 50 (spec_blocks ?items)
      sampleConfig 0)). snd x = None"
    unfolding blocks calls1 by simp
  have nofail2: "\<forall>x\<in>set (run_calls (main sampleCollaborators ?pob 50
      (spec_blocks (?pre @ ?bad # ?post)) sampleConfig 0)). snd x = None"
    unfolding blocks calls2 by simp
  have heights: "concat (map spec_heights ?items) = [3, 4, 5, 20, 7]"
    "concat (map spec_heights ?pre) = [3, 4]"
    by (simp_all add: digitsValue_def upt_rec)
  from replay_heights [where items = ?items and fuel = 50 and col = sampleCollaborators
      and pob = ?pob and cfg = sampleConfig and st = "0::nat" and pre = ?pre and bad = ?bad
      and post = ?post]
    inRange large post started nofail1 nofail2
  have "run_calls (main sampleCollaborators ?pob 50 (spec_blocks ?items) sampleConfig 0)
          = map (\<lambda>n. (word_of_nat n, None)) (concat (map spec_heights ?items))
      \<and> run_exit (main sampleCollaborators ?pob 50 (spec_blocks ?items) sampleConfig 0) = Done
      \<and> run_calls (main sampleCollaborators ?pob 50 (spec_blocks (?pre @ ?bad # ?post))
           sampleConfig 0)
          = map (\<lambda>n. (word_of_nat n, None)) (concat (map spec_heights ?pre))
      \<and> run_exit (main sampleCollaborators ?pob 50 (spec_blocks (?pre @ ?bad # ?post))
           sampleConfig 0) = Fatal (spec_refusal ?bad)"
    by blast
  then show ?thesis unfolding heights blocks refusal by simp
qed

text \<open>
  C10 as stated promises one call on \<open>h\<close> for every single decimal height \<open>h\<close>. The height
  \<open>2^64 - 1\<close> is called and then the loop goes on with 0, 1, ...: the increment of the
  64-bit counter wraps around and the loop condition never fails. The height \<open>2^64\<close> is
  refused by \<^verbatim>\<open>ParseUint\<close>, and the run ends without any call.
\<close>

theorem replay_heights_counterexample:
  "run_calls (main sampleCollaborators (sampleProcessOneBlock []) 3 ''18446744073709551615''
       sampleConfig 0)
     = [(18446744073709551615, None), (0, None), (1, None)]
   \<and> run_exit (main sampleCollaborators (sampleProcessOneBlock []) 3 ''18446744073709551615''
       sampleConfig 0) = StillRunning
   \<and> run_calls (main sampleCollaborators (sampleProcessOneBlock []) 3 ''18446744073709551616''
       sampleConfig 0) = []
   \<and> run_exit (main sampleCollaborators (sampleProcessOneBlock []) 3 ''18446744073709551616''
       sampleConfig 0)
     = Fatal (InvalidHeight ''18446744073709551616'' ''value out of range'')"
proof -
  have "processItems 3 (sampleProcessOneBlock []) (Split ''18446744073709551615'') (0, [])
      = (StillRunning, 3, [(18446744073709551615, None), (0, None), (1, None)])"
    by (simp add: replay_defs processRange_step sampleProcessOneBlock_def)
  moreover have "processItems 3 (sampleProcessOneBlock []) (Split ''18446744073709551616'') (0, [])
      = (Fatal (InvalidHeight ''18446744073709551616'' ''value out of range''), 0, [])"
    by (simp add: replay_defs)
  ultimately show ?thesis
    using sample_replay [of "''18446744073709551615''" 3 "sampleProcessOneBlock []" 0]
      sample_replay [of "''18446744073709551616''" 3 "sampleProcessOneBlock []" 0]
    by (simp add: continuously_def)
qed


text \<open>A range that ends at the largest 64-bit height never ends, whatever the bound on
  the number of calls: every call allowed is made, and the loop is still running.\<close>

lemma processRange_never_ends:
  assumes "\<forall>h s. fst (pob h s) = None"
  shows "\<exists>st' new. processRange fuel pob h (- 1) (st, log) = (StillRunning, st', log @ new)
           \<and> length new = fuel"
proof (induction fuel arbitrary: h st log)
  case 0
  then show ?case by simp
next
  case (Suc fuel)
  obtain s where pob: "pob h st = (None, s)"
    using assms by (metis fst_conv surj_pair)
  from Suc.IH [of "h + 1" s "log @ [(h, None)]"] obtain st' new where
    "processRange fuel pob (h + 1) (- 1) (s, log @ [(h, None)])
       = (StillRunning, st', (log @ [(h, None)]) @ new)" and "length new = fuel"
    by blast
  with pob show ?case by (intro exI [of _ st'] exI [of _ "(h, None) # new"]) simp
qed


section \<open>Properties of the cashiers\<close>

subsection \<open>From the configuration to the constructor calls\<close>

text \<open>The \<open>i\<close>-th cashier of a run is what the loop body of the configured chain returns
  on the \<open>i\<close>-th entry of \<^verbatim>\<open>cfg.Cashiers\<close>, whose relayer URL may have been completed.\<close>

lemma newCashiers_built:
  "newCashiers body ccs acc = (cs, r) \<Longrightarrow>
     \<exists>new. cs = acc @ new \<and> length new \<le> length ccs
       \<and> (\<forall>i<length new. body (ccs ! i) = Inr (new ! i))"
proof (induction ccs arbitrary: acc)
  case Nil
  then show ?case by simp
next
  case (Cons cc rest)
  show ?case
  proof (cases "body cc")
    case (Inl f)
    with Cons.prems show ?thesis by simp
  next
    case (Inr c)
    with Cons.prems have "newCashiers body rest (acc @ [c]) = (cs, r)" by simp
    from Cons.IH [OF this] obtain new where new: "cs = (acc @ [c]) @ new"
      and len: "length new \<le> length rest"
      and built: "\<forall>i<length new. body (rest ! i) = Inr (new ! i)"
      by blast
    have "\<forall>i<length (c # new). body ((cc # rest) ! i) = Inr ((c # new) ! i)"
    proof (intro allI impI)
      fix i assume "i < length (c # new)"
      then show "body ((cc # rest) ! i) = Inr ((c # new) ! i)"
        using Inr built by (cases i) simp_all
    qed
    with new len show ?thesis by (intro exI [of _ "c # new"]) simp
  qed
qed

lemma main_cashiers_built:
  assumes "main_cashiers col cfg dec = (cs, r)" and "i < length cs"
  shows "i < length (Cashiers cfg)
     \<and> (Chain cfg = ''iotex'' \<or> evmChain (Chain cfg) \<or> Chain cfg = ''solana'')
     \<and> cashierBody col cfg dec (Cashiers cfg ! i) = Inr (cs ! i)"
proof -
  have known: "Chain cfg = ''iotex'' \<or> evmChain (Chain cfg) \<or> Chain cfg = ''solana''"
    using assms by (auto simp: main_cashiers_def split: if_splits)
  have "cs = [] \<or> newCashiers (cashierBody col cfg dec) (Cashiers cfg) [] = (cs, r)"
    using assms(1) known
    by (auto simp: main_cashiers_def cashierBody_def split: if_splits option.splits)
  with assms(2) have "newCashiers (cashierBody col cfg dec) (Cashiers cfg) [] = (cs, r)"
    by auto
  from newCashiers_built [OF this] assms(2) known show ?thesis by auto
qed

lemma main_run_cashiers:
  "run_cashiers (main col pob fuel blocksFlag cfg st) = []
   \<or> (\<exists>sh dec r. main_signHandler col cfg = Inr (sh, dec)
         \<and> main_cashiers col (main_relayerURLs cfg) dec
             = (run_cashiers (main col pob fuel blocksFlag cfg st), r))"
  unfolding main_def Let_def
  by (auto split: sum.splits prod.splits option.splits)

lemma main_relayerURLs_fields [simp]:
  "Chain (main_relayerURLs cfg) = Chain cfg"
  "Database (main_relayerURLs cfg) = Database cfg"
  "ConfirmBlockNumber (main_relayerURLs cfg) = ConfirmBlockNumber cfg"
  "DisableTransferSubmit (main_relayerURLs cfg) = DisableTransferSubmit cfg"
  "length (Cashiers (main_relayerURLs cfg)) = length (Cashiers cfg)"
  by (simp_all add: main_relayerURLs_def)

lemma main_relayerURLs_cashier:
  assumes "i < length (Cashiers cfg)"
  shows "\<exists>u. Cashiers (main_relayerURLs cfg) ! i = (Cashiers cfg ! i)\<lparr>cc_RelayerURL := u\<rparr>"
proof (cases "RelayerURL cfg = []")
  case True
  then have "Cashiers (main_relayerURLs cfg) ! i
      = (Cashiers cfg ! i)\<lparr>cc_RelayerURL := cc_RelayerURL (Cashiers cfg ! i)\<rparr>"
    by (simp add: main_relayerURLs_def)
  then show ?thesis by blast
next
  case False
  with assms have "Cashiers (main_relayerURLs cfg) ! i
      = relayerURL_of (RelayerURL cfg) (Cashiers cfg ! i)"
    by (simp add: main_relayerURLs_def)
  moreover have "relayerURL_of (RelayerURL cfg) (Cashiers cfg ! i)
      = (Cashiers cfg ! i)\<lparr>cc_RelayerURL :=
           (if take 1 (cc_RelayerURL (Cashiers cfg ! i)) = '':''
            then RelayerURL cfg @ cc_RelayerURL (Cashiers cfg ! i)
            else if cc_RelayerURL (Cashiers cfg ! i) = [] then RelayerURL cfg
            else cc_RelayerURL (Cashiers cfg ! i))\<rparr>"
    by (simp add: relayerURL_of_def)
  ultimately show ?thesis by (intro exI) (rule trans)
qed

lemma main_cashier_from_config:
  assumes "i < length (run_cashiers (main col pob fuel blocksFlag cfg st))"
  shows "i < length (Cashiers cfg)
     \<and> (Chain cfg = ''iotex'' \<or> evmChain (Chain cfg) \<or> Chain cfg = ''solana'')
     \<and> (\<exists>dec u. cashierBody col (main_relayerURLs cfg) dec
                   ((Cashiers cfg ! i)\<lparr>cc_RelayerURL := u\<rparr>)
                 = Inr (run_cashiers (main col pob fuel blocksFlag cfg st) ! i))"
proof -
  from assms main_run_cashiers [of col pob fuel blocksFlag cfg st]
  obtain sh dec r where
    "main_cashiers col (main_relayerURLs cfg) dec
       = (run_cashiers (main col pob fuel blocksFlag cfg st), r)"
    by auto
  from main_cashiers_built [OF this assms]
  have i: "i < length (Cashiers cfg)"
    and known: "Chain cfg = ''iotex'' \<or> evmChain (Chain cfg) \<or> Chain cfg = ''solana''"
    and body: "cashierBody col (main_relayerURLs cfg) dec (Cashiers (main_relayerURLs cfg) ! i)
        = Inr (run_cashiers (main col pob fuel blocksFlag cfg st) ! i)"
    by simp_all
  from main_relayerURLs_cashier [OF i] obtain u where
    "Cashiers (main_relayerURLs cfg) ! i = (Cashiers cfg ! i)\<lparr>cc_RelayerURL := u\<rparr>"
    by blast
  with body have "cashierBody col (main_relayerURLs cfg) dec
                   ((Cashiers cfg ! i)\<lparr>cc_RelayerURL := u\<rparr>)
                 = Inr (run_cashiers (main col pob fuel blocksFlag cfg st) ! i)"
    by simp
  with i known show ?thesis by blast
qed


lemma reversePairs_lookup:
  "reversePairs col tokens pairs k
     = (if k \<in> HexToAddress col ` set tokens then Some (ETHAddressToAddress k) else pairs k)"
  by (induction tokens arbitrary: pairs) auto

lemma iotexCashier_result:
  assumes "iotexCashier col cfg dec cc = Inr c"
  shows "\<exists>a v pairs decimalRound.
           iotexDecimalRound col (cc_DecimalRound cc) Map.empty = Inr decimalRound
         \<and> c = NewTokenCashier (cc_ID cc) (cc_RelayerURL cc) a v
                 (NewRecorder (Database cfg) (cc_TransferTableName cc) pairs decimalRound dec)
                 (word_of_int (cc_StartBlockHeight cc)) dec"
  using assms
  by (auto simp: iotexCashier_def created_def split: sum.splits option.splits)

lemma created_result: "created col cashier = Inr c \<Longrightarrow> c = cashier"
  by (simp add: created_def split: option.splits)

lemma ethereumCashier_result:
  assumes "ethereumCashier col cfg dec cc = Inr c"
  shows "\<exists>a t v pairs.
           c = NewTokenCashierOnEthereum (cc_ID cc) (cc_RelayerURL cc) a t v
                 (NewRecorder (Database cfg) (cc_TransferTableName cc) pairs Map.empty dec)
                 (word_of_int (cc_StartBlockHeight cc))
                 (word_of_int (ConfirmBlockNumber cfg))
                 (if rv_CashierContractAddress (cc_Reverse cc) \<noteq> []
                     \<and> rv_TransferTableName (cc_Reverse cc) \<noteq> []
                  then Some (NewRecorder (Database cfg) (rv_TransferTableName (cc_Reverse cc))
                               (reversePairs col (rv_Tokens (cc_Reverse cc)) Map.empty)
                               Map.empty dec)
                  else None)
                 (HexToAddress col (rv_CashierContractAddress (cc_Reverse cc)))"
proof (cases "FromString col (cc_ValidatorContractAddress cc)")
  case (Inl err)
  with assms show ?thesis by (simp add: ethereumCashier_def)
next
  case addr: (Inr addr)
  show ?thesis
  proof (cases "ethereumPairs col (cc_TokenPairs cc) Map.empty")
    case (Inl f)
    with assms addr show ?thesis by (simp add: ethereumCashier_def)
  next
    case (Inr pairs)
    with assms addr have "created col
        (NewTokenCashierOnEthereum (cc_ID cc) (cc_RelayerURL cc)
           (HexToAddress col (cc_CashierContractAddress cc))
           (HexToAddress col (cc_TokenSafeContractAddress cc))
           (BytesToAddress col addr)
           (NewRecorder (Database cfg) (cc_TransferTableName cc) pairs Map.empty dec)
           (word_of_int (cc_StartBlockHeight cc))
           (word_of_int (ConfirmBlockNumber cfg))
           (if rv_CashierContractAddress (cc_Reverse cc) \<noteq> []
               \<and> rv_TransferTableName (cc_Reverse cc) \<noteq> []
            then Some (NewRecorder (Database cfg) (rv_TransferTableName (cc_Reverse cc))
                         (reversePairs col (rv_Tokens (cc_Reverse cc)) Map.empty)
                         Map.empty dec)
            else None)
           (HexToAddress col (rv_CashierContractAddress (cc_Reverse cc)))) = Inr c"
      by (simp add: ethereumCashier_def Let_def)
    from created_result [OF this] show ?thesis by blast
  qed
qed

lemma solanaCashier_result:
  assumes "solanaCashier col cfg dec cc = Inr c"
  shows "\<exists>a v pairs.
           c = NewTokenCashierOnSolana (cc_ID cc) (cc_RelayerURL cc) a v
                 (NewSOLRecorder (Database cfg) (cc_TransferTableName cc) pairs
                    (solanaDecimalRound col (cc_DecimalRound cc) Map.empty) dec)
                 (word_of_int (cc_StartBlockHeight cc)) (cc_QPSLimit cc) (cc_DisablePull cc)"
  using assms
  by (auto simp: solanaCashier_def created_def split: sum.splits option.splits)

lemma evmChain_not_others: "evmChain chain \<Longrightarrow> chain \<noteq> ''iotex'' \<and> chain \<noteq> ''solana''"
  by (auto simp: evmChain_def)

lemma cashierBody_evm:
  "evmChain (Chain cfg) \<Longrightarrow> cashierBody col cfg dec = ethereumCashier col cfg dec"
  by (simp add: cashierBody_def evmChain_not_others)

lemma cashierBody_iotex:
  "Chain cfg = ''iotex'' \<Longrightarrow> cashierBody col cfg dec = iotexCashier col cfg dec"
  by (simp add: cashierBody_def)

lemma cashierBody_solana:
  "Chain cfg = ''solana'' \<Longrightarrow> cashierBody col cfg dec = solanaCashier col cfg dec"
  by (simp add: cashierBody_def evmChain_def)


subsection \<open>The confirmation depth\<close>

text \<open>
  C4, as the source has it. On the chains handled by the \<^verbatim>\<open>"ethereum"\<close> case, every
  cashier is constructed by \<^verbatim>\<open>NewTokenCashierOnEthereum\<close> with a confirmation depth equal
  to the configured \<^verbatim>\<open>ConfirmBlockNumber\<close>, provided the configured value lies between 0
  and 255, the values of the 8-bit parameter that receives it.
\<close>

theorem confirm_depth_in_range:
  assumes "evmChain (Chain cfg)"
    and "0 \<le> ConfirmBlockNumber cfg" and "ConfirmBlockNumber cfg < 256"
    and "i < length (run_cashiers (main col pob fuel blocksFlag cfg st))"
  shows "onEthereum (run_cashiers (main col pob fuel blocksFlag cfg st) ! i)
     \<and> uint (tc_confirmBlockNumber (run_cashiers (main col pob fuel blocksFlag cfg st) ! i))
         = ConfirmBlockNumber cfg"
proof -
  from main_cashier_from_config [OF assms(4)] obtain dec u where
    "cashierBody col (main_relayerURLs cfg) dec ((Cashiers cfg ! i)\<lparr>cc_RelayerURL := u\<rparr>)
       = Inr (run_cashiers (main col pob fuel blocksFlag cfg st) ! i)"
    by blast
  with assms(1) have "ethereumCashier col (main_relayerURLs cfg) dec
        ((Cashiers cfg ! i)\<lparr>cc_RelayerURL := u\<rparr>)
       = Inr (run_cashiers (main col pob fuel blocksFlag cfg st) ! i)"
    by (simp add: cashierBody_evm)
  from ethereumCashier_result [OF this] obtain a t v r s rr ra where
    "run_cashiers (main col pob fuel blocksFlag cfg st) ! i
       = NewTokenCashierOnEthereum (cc_ID ((Cashiers cfg ! i)\<lparr>cc_RelayerURL := u\<rparr>))
           (cc_RelayerURL ((Cashiers cfg ! i)\<lparr>cc_RelayerURL := u\<rparr>)) a t v r s
           (word_of_int (ConfirmBlockNumber cfg)) rr ra"
    by auto
  moreover from assms(2,3) have "uint (word_of_int (ConfirmBlockNumber cfg) :: uint8)
      = ConfirmBlockNumber cfg"
    by (simp add: uint_word_of_int)
  ultimately show ?thesis by simp
qed


theorem confirm_depth_in_range_witness:
  "evmChain (Chain sampleConfig) \<and> ConfirmBlockNumber sampleConfig = 20
   \<and> uint (tc_confirmBlockNumber
        (run_cashiers (main sampleCollaborators (sampleProcessOneBlock []) 0 continuously
           sampleConfig 0) ! 1)) = 20"
proof -
  have evm: "evmChain (Chain sampleConfig)" 
    by (simp add: evmChain_def sampleConfig_def)
  have lo: "0 \<le> ConfirmBlockNumber sampleConfig" and hi: "ConfirmBlockNumber sampleConfig < 256"
    and val: "ConfirmBlockNumber sampleConfig = 20"
    by (simp_all add: sampleConfig_def)
  have i: "1 < length (run_cashiers (main sampleCollaborators (sampleProcessOneBlock []) 0
      continuously sampleConfig 0))"
    by (simp add: sample_cashiers_length)
  from confirm_depth_in_range [OF evm lo hi i] evm val show ?thesis by simp
qed


text \<open>
  C4 as stated holds for all integer values of the setting. A configured
  \<^verbatim>\<open>ConfirmBlockNumber\<close> of 300 reaches the cashiers as the depth 44: the conversion to
  the 8-bit parameter keeps the low eight bits.
\<close>

theorem confirm_depth_counterexample:
  "ConfirmBlockNumber (sampleConfig\<lparr>ConfirmBlockNumber := 300\<rparr>) = 300
   \<and> evmChain (Chain (sampleConfig\<lparr>ConfirmBlockNumber := 300\<rparr>))
   \<and> uint (tc_confirmBlockNumber
        (run_cashiers (main sampleCollaborators (sampleProcessOneBlock []) 0 continuously
           (sampleConfig\<lparr>ConfirmBlockNumber := 300\<rparr>) 0) ! 0)) = 44"
  by (simp add: main_defs sample_defs)

subsection \<open>The decimal rounding\<close>

text \<open>What each chain family passes as the decimal-round map of its recorders: nothing
  on the chains of the \<^verbatim>\<open>"ethereum"\<close> case, whatever is configured; the configured
  entries, a later entry for a token overriding an earlier one, on \<^verbatim>\<open>"solana"\<close>.\<close>

lemma decimalRound_empty_on_evm:
  assumes "evmChain (Chain cfg)"
    and "i < length (run_cashiers (main col pob fuel blocksFlag cfg st))"
  shows "\<forall>r\<in>set (tc_recorders (run_cashiers (main col pob fuel blocksFlag cfg st) ! i)).
           rc_decimalRound r = Map.empty"
proof -
  from main_cashier_from_config [OF assms(2)] obtain dec u where
    "cashierBody col (main_relayerURLs cfg) dec ((Cashiers cfg ! i)\<lparr>cc_RelayerURL := u\<rparr>)
       = Inr (run_cashiers (main col pob fuel blocksFlag cfg st) ! i)"
    by blast
  with assms(1) have "ethereumCashier col (main_relayerURLs cfg) dec
        ((Cashiers cfg ! i)\<lparr>cc_RelayerURL := u\<rparr>)
       = Inr (run_cashiers (main col pob fuel blocksFlag cfg st) ! i)"
    by (simp add: cashierBody_evm)
  from ethereumCashier_result [OF this] show ?thesis by (auto split: if_splits)
qed

lemma solanaDecimalRound_map_of:
  "solanaDecimalRound col entries decimalRound
     = decimalRound
         ++ map_of (rev (map (\<lambda>r. (PublicKeyFromString col (dr_Token1 r), dr_Amount r)) entries))"
proof (induction entries arbitrary: decimalRound)
  case Nil
  then show ?case by simp
next
  case (Cons r rest)
  have "decimalRound(PublicKeyFromString col (dr_Token1 r) \<mapsto> dr_Amount r)
      = decimalRound ++ [PublicKeyFromString col (dr_Token1 r) \<mapsto> dr_Amount r]"
    by simp
  with Cons show ?case by (simp only: solanaDecimalRound.simps list.map rev.simps map_of_append
        map_of.simps map_add_assoc fst_conv snd_conv)
qed

lemma decimalRound_passed_on_solana:
  assumes "Chain cfg = ''solana''"
    and "i < length (run_cashiers (main col pob fuel blocksFlag cfg st))"
  shows "rc_decimalRound (tc_recorder (run_cashiers (main col pob fuel blocksFlag cfg st) ! i))
     = map_of (rev (map (\<lambda>r. (PublicKeyFromString col (dr_Token1 r), dr_Amount r))
                    (cc_DecimalRound (Cashiers cfg ! i))))"
proof -
  from main_cashier_from_config [OF assms(2)] obtain dec u where
    "cashierBody col (main_relayerURLs cfg) dec ((Cashiers cfg ! i)\<lparr>cc_RelayerURL := u\<rparr>)
       = Inr (run_cashiers (main col pob fuel blocksFlag cfg st) ! i)"
    by blast
  with assms(1) have "solanaCashier col (main_relayerURLs cfg) dec
        ((Cashiers cfg ! i)\<lparr>cc_RelayerURL := u\<rparr>)
       = Inr (run_cashiers (main col pob fuel blocksFlag cfg st) ! i)"
    by (simp add: cashierBody_solana)
  from solanaCashier_result [OF this] show ?thesis
    by (auto simp: solanaDecimalRound_map_of)
qed


text \<open>
  C3 says that on every source-chain family the configured \<^verbatim>\<open>DecimalRound\<close> entries are
  passed into the recorder of the cashier. Evaluated on the sample configuration, whose
  two cashiers each configure the amount 2 for the token \<open>t1\<close>: on chain
  \<^verbatim>\<open>"ethereum"\<close> both recorders receive the empty map, while on \<^verbatim>\<open>"iotex"\<close> and on
  \<^verbatim>\<open>"solana"\<close> both recorders map the token to 2.
\<close>

theorem decimal_round_dropped_on_ethereum:
  "cc_DecimalRound (Cashiers sampleConfig ! 0) = [\<lparr>dr_Token1 = ''t1'', dr_Amount = 2\<rparr>]
   \<and> Chain sampleConfig = ''ethereum''
   \<and> rc_decimalRound (tc_recorder
        (run_cashiers (main sampleCollaborators (sampleProcessOneBlock []) 0 continuously
           sampleConfig 0) ! 0)) = Map.empty
   \<and> rc_decimalRound (tc_recorder
        (run_cashiers (main sampleCollaborators (sampleProcessOneBlock []) 0 continuously
           (sampleConfig\<lparr>Chain := ''iotex''\<rparr>) 0) ! 0)) (textBytes ''t1'') = Some 2
   \<and> rc_decimalRound (tc_recorder
        (run_cashiers (main sampleCollaborators (sampleProcessOneBlock []) 0 continuously
           (sampleConfig\<lparr>Chain := ''solana''\<rparr>) 0) ! 0)) (textBytes ''t1'') = Some 2"
  by (simp add: main_defs sample_defs)

subsection \<open>The reverse recorder\<close>

lemma main_service:
  "run_service (main col pob fuel blocksFlag cfg st) = Some service \<Longrightarrow>
     svc_disableTransferSubmit service = DisableTransferSubmit cfg
     \<and> svc_cashiers service = run_cashiers (main col pob fuel blocksFlag cfg st)"
  unfolding main_def Let_def
  by (auto split: sum.splits prod.splits option.splits if_splits)


text \<open>
  C7, as the source has it. On the chains of the \<^verbatim>\<open>"ethereum"\<close> case a cashier is
  constructed with a reverse recorder if and only if both the reverse cashier contract
  address and the reverse transfer table name of its configuration are non-empty. The
  reverse recorder is opened on the same database as the forward recorder and uses the
  reverse transfer table name, while the forward recorder uses the cashier's own transfer
  table name: the two recorders have different tables exactly when the two configured
  names differ. The token pairs of the reverse recorder map the address of each reverse
  token to itself and nothing else. On \<^verbatim>\<open>"iotex"\<close> and \<^verbatim>\<open>"solana"\<close> a cashier is
  constructed with its forward recorder only.
\<close>

theorem reverse_recorder_on_evm:
  assumes "i < length (run_cashiers (main col pob fuel blocksFlag cfg st))"
    and "c = run_cashiers (main col pob fuel blocksFlag cfg st) ! i"
    and "rv = cc_Reverse (Cashiers cfg ! i)"
  shows "(evmChain (Chain cfg) \<longrightarrow>
            onEthereum c
          \<and> rc_transferTableName (tc_recorder c) = cc_TransferTableName (Cashiers cfg ! i)
          \<and> (tc_reverseRecorder c \<noteq> None
               \<longleftrightarrow> rv_CashierContractAddress rv \<noteq> [] \<and> rv_TransferTableName rv \<noteq> [])
          \<and> (\<forall>r. tc_reverseRecorder c = Some r \<longrightarrow>
                 rc_transferTableName r = rv_TransferTableName rv
               \<and> rc_store r = rc_store (tc_recorder c)
               \<and> (rc_transferTableName r \<noteq> rc_transferTableName (tc_recorder c)
                    \<longleftrightarrow> rv_TransferTableName rv \<noteq> cc_TransferTableName (Cashiers cfg ! i))
               \<and> (\<forall>k. rc_tokenPairs r k
                        = (if k \<in> HexToAddress col ` set (rv_Tokens rv)
                           then Some (ETHAddressToAddress k) else None))))
       \<and> (\<not> evmChain (Chain cfg) \<longrightarrow> tc_recorders c = [tc_recorder c])"
proof -
  let ?cc = "Cashiers cfg ! i"
  from main_cashier_from_config [OF assms(1)] assms(2) obtain dec u where
    known: "Chain cfg = ''iotex'' \<or> evmChain (Chain cfg) \<or> Chain cfg = ''solana''"
    and body: "cashierBody col (main_relayerURLs cfg) dec (?cc\<lparr>cc_RelayerURL := u\<rparr>) = Inr c"
    by blast
  show ?thesis
  proof (cases "evmChain (Chain cfg)")
    case True
    with body have "ethereumCashier col (main_relayerURLs cfg) dec (?cc\<lparr>cc_RelayerURL := u\<rparr>)
        = Inr c"
      by (simp add: cashierBody_evm)
    from ethereumCashier_result [OF this] obtain a t v pairs where
      c: "c = NewTokenCashierOnEthereum (cc_ID ?cc) u a t v
                 (NewRecorder (Database cfg) (cc_TransferTableName ?cc) pairs Map.empty dec)
                 (word_of_int (cc_StartBlockHeight ?cc))
                 (word_of_int (ConfirmBlockNumber cfg))
                 (if rv_CashierContractAddress rv \<noteq> [] \<and> rv_TransferTableName rv \<noteq> []
                  then Some (NewRecorder (Database cfg) (rv_TransferTableName rv)
                               (reversePairs col (rv_Tokens rv) Map.empty)
                               Map.empty dec)
                  else None)
                 (HexToAddress col (rv_CashierContractAddress rv))"
      using assms(3) by auto
    with True show ?thesis by (simp add: reversePairs_lookup)
  next
    case False
    with known have "Chain cfg = ''iotex'' \<or> Chain cfg = ''solana''" by blast
    then have "tc_recorders c = [tc_recorder c]"
    proof
      assume "Chain cfg = ''iotex''"
      with body have "iotexCashier col (main_relayerURLs cfg) dec (?cc\<lparr>cc_RelayerURL := u\<rparr>)
          = Inr c"
        by (simp add: cashierBody_iotex)
      from iotexCashier_result [OF this] show ?thesis by auto
    next
      assume "Chain cfg = ''solana''"
      with body have "solanaCashier col (main_relayerURLs cfg) dec (?cc\<lparr>cc_RelayerURL := u\<rparr>)
          = Inr c"
        by (simp add: cashierBody_solana)
      from solanaCashier_result [OF this] show ?thesis by auto
    qed
    with False show ?thesis by simp
  qed
qed

theorem reverse_recorder_on_evm_witness:
  "map_option rc_transferTableName
     (tc_reverseRecorder
        (run_cashiers (main sampleCollaborators (sampleProcessOneBlock []) 0 continuously
           sampleConfig 0) ! 0)) = Some ''reverse_transfers''
   \<and> rc_transferTableName
     (tc_recorder
        (run_cashiers (main sampleCollaborators (sampleProcessOneBlock []) 0 continuously
           sampleConfig 0) ! 0)) = ''transfers''
   \<and> tc_recorders
        (run_cashiers (main sampleCollaborators (sampleProcessOneBlock []) 0 continuously
           (sampleConfig\<lparr>Chain := ''iotex''\<rparr>) 0) ! 0)
     = [tc_recorder
          (run_cashiers (main sampleCollaborators (sampleProcessOneBlock []) 0 continuously
             (sampleConfig\<lparr>Chain := ''iotex''\<rparr>) 0) ! 0)]"
proof -
  let ?eth = "main sampleCollaborators (sampleProcessOneBlock []) 0 continuously sampleConfig 0"
  let ?iotex = "main sampleCollaborators (sampleProcessOneBlock []) 0 continuously
      (sampleConfig\<lparr>Chain := ''iotex''\<rparr>) 0"
  have evm: "evmChain (Chain sampleConfig)"
    and other: "\<not> evmChain (Chain (sampleConfig\<lparr>Chain := ''iotex''\<rparr>))"
    by (simp_all add: evmChain_def sampleConfig_def)
  have rv: "rv_CashierContractAddress (cc_Reverse (Cashiers sampleConfig ! 0)) \<noteq> []"
    "rv_TransferTableName (cc_Reverse (Cashiers sampleConfig ! 0)) = ''reverse_transfers''"
    "cc_TransferTableName (Cashiers sampleConfig ! 0) = ''transfers''"
    by (simp_all add: sample_defs)
  have "0 < length (run_cashiers ?eth)" by (simp add: sample_cashiers_length)
  from reverse_recorder_on_evm [OF this refl refl] evm rv
  have "map_option rc_transferTableName (tc_reverseRecorder (run_cashiers ?eth ! 0))
      = Some ''reverse_transfers''
      \<and> rc_transferTableName (tc_recorder (run_cashiers ?eth ! 0)) = ''transfers''"
    by auto
  moreover have "0 < length (run_cashiers ?iotex)" by (simp add: sample_cashiers_length_chain)
  from reverse_recorder_on_evm [OF this refl refl] other
  have "tc_recorders (run_cashiers ?iotex ! 0) = [tc_recorder (run_cashiers ?iotex ! 0)]"
    by blast
  ultimately show ?thesis by simp
qed

text \<open>
  C7 as stated speaks of every cashier and calls the reverse table a scope distinct from
  the forward recorder's table. Both fail on the source. On chain \<^verbatim>\<open>"iotex"\<close> the first
  sample cashier configures both reverse fields and is constructed by
  \<^verbatim>\<open>NewTokenCashier\<close> with one recorder, the forward one: that constructor and
  \<^verbatim>\<open>NewTokenCashierOnSolana\<close> take no reverse recorder at all. On chain
  \<^verbatim>\<open>"ethereum"\<close>, a cashier whose reverse transfer table name equals its transfer table
  name gets two recorders on the same database and the same table. The two names are
  independent strings of the configuration that \<^verbatim>\<open>main\<close> hands to
  \<^verbatim>\<open>witness.NewRecorder\<close> unchanged; \<^verbatim>\<open>main\<close> compares no table names, neither these
  two nor those of different cashiers, so keeping them apart is left to the configuration.
\<close>

theorem reverse_recorder_counterexample:
  "rv_CashierContractAddress (cc_Reverse (Cashiers (sampleConfig\<lparr>Chain := ''iotex''\<rparr>) ! 0))
     = ''reverse_cashier''
   \<and> rv_TransferTableName (cc_Reverse (Cashiers (sampleConfig\<lparr>Chain := ''iotex''\<rparr>) ! 0))
     = ''reverse_transfers''
   \<and> onIotex
        (run_cashiers (main sampleCollaborators (sampleProcessOneBlock []) 0 continuously
           (sampleConfig\<lparr>Chain := ''iotex''\<rparr>) 0) ! 0)
   \<and> length (tc_recorders
        (run_cashiers (main sampleCollaborators (sampleProcessOneBlock []) 0 continuously
           (sampleConfig\<lparr>Chain := ''iotex''\<rparr>) 0) ! 0)) = 1
   \<and> Chain (sampleConfig\<lparr>Cashiers := [sampleCashier\<lparr>cc_Reverse :=
          \<lparr>rv_TransferTableName = ''transfers'', rv_CashierContractAddress = ''reverse_cashier'',
           rv_Tokens = [''u1'']\<rparr>\<rparr>]\<rparr>) = ''ethereum''
   \<and> rc_store (tc_recorder
        (run_cashiers (main sampleCollaborators (sampleProcessOneBlock []) 0 continuously
           (sampleConfig\<lparr>Cashiers := [sampleCashier\<lparr>cc_Reverse :=
              \<lparr>rv_TransferTableName = ''transfers'',
               rv_CashierContractAddress = ''reverse_cashier'',
               rv_Tokens = [''u1'']\<rparr>\<rparr>]\<rparr>) 0) ! 0)) = ''db''
   \<and> rc_transferTableName (tc_recorder
        (run_cashiers (main sampleCollaborators (sampleProcessOneBlock []) 0 continuously
           (sampleConfig\<lparr>Cashiers := [sampleCashier\<lparr>cc_Reverse :=
              \<lparr>rv_TransferTableName = ''transfers'',
               rv_CashierContractAddress = ''reverse_cashier'',
               rv_Tokens = [''u1'']\<rparr>\<rparr>]\<rparr>) 0) ! 0)) = ''transfers''
   \<and> map_option rc_store (tc_reverseRecorder
        (run_cashiers (main sampleCollaborators (sampleProcessOneBlock []) 0 continuously
           (sampleConfig\<lparr>Cashiers := [sampleCashier\<lparr>cc_Reverse :=
              \<lparr>rv_TransferTableName = ''transfers'',
               rv_CashierContractAddress = ''reverse_cashier'',
               rv_Tokens = [''u1'']\<rparr>\<rparr>]\<rparr>) 0) ! 0)) = Some ''db''
   \<and> map_option rc_transferTableName (tc_reverseRecorder
        (run_cashiers (main sampleCollaborators (sampleProcessOneBlock []) 0 continuously
           (sampleConfig\<lparr>Cashiers := [sampleCashier\<lparr>cc_Reverse :=
              \<lparr>rv_TransferTableName = ''transfers'',
               rv_CashierContractAddress = ''reverse_cashier'',
               rv_Tokens = [''u1'']\<rparr>\<rparr>]\<rparr>) 0) ! 0)) = Some ''transfers''"
  by (simp add: main_defs sample_defs)

subsection \<open>The knobs\<close>

text \<open>
  C8, as the source has it. Every cashier is constructed with the start block height of
  its own configuration entry, converted to 64 bits. The QPS limit and the disable-pull
  flag of the entry are handed to the cashier on chain \<^verbatim>\<open>"solana"\<close>; on the other chains
  the cashier is constructed by a constructor that takes neither. The
  \<^verbatim>\<open>DisableTransferSubmit\<close> flag is a field of the whole configuration and is handed once
  to the service that owns all the cashiers.
\<close>

theorem knobs_by_chain:
  assumes "i < length (run_cashiers (main col pob fuel blocksFlag cfg st))"
    and "c = run_cashiers (main col pob fuel blocksFlag cfg st) ! i"
    and "cc = Cashiers cfg ! i"
  shows "tc_startBlockHeight c = word_of_int (cc_StartBlockHeight cc)
       \<and> (Chain cfg = ''solana'' \<longrightarrow>
            onSolana c \<and> tc_qpsLimit c = cc_QPSLimit cc \<and> tc_disablePull c = cc_DisablePull cc)
       \<and> (Chain cfg \<noteq> ''solana'' \<longrightarrow> \<not> onSolana c)
       \<and> (\<forall>service. run_service (main col pob fuel blocksFlag cfg st) = Some service \<longrightarrow>
            svc_disableTransferSubmit service = DisableTransferSubmit cfg
          \<and> svc_cashiers service = run_cashiers (main col pob fuel blocksFlag cfg st))"
proof -
  from main_cashier_from_config [OF assms(1)] assms(2,3) obtain dec u where
    known: "Chain cfg = ''iotex'' \<or> evmChain (Chain cfg) \<or> Chain cfg = ''solana''"
    and body: "cashierBody col (main_relayerURLs cfg) dec (cc\<lparr>cc_RelayerURL := u\<rparr>) = Inr c"
    by blast
  have "tc_startBlockHeight c = word_of_int (cc_StartBlockHeight cc)
       \<and> (Chain cfg = ''solana'' \<longrightarrow>
            onSolana c \<and> tc_qpsLimit c = cc_QPSLimit cc \<and> tc_disablePull c = cc_DisablePull cc)
       \<and> (Chain cfg \<noteq> ''solana'' \<longrightarrow> \<not> onSolana c)"
  proof -
    consider (iotex) "Chain cfg = ''iotex''" | (evm) "evmChain (Chain cfg)"
      | (solana) "Chain cfg = ''solana''"
      using known by blast
    then show ?thesis
    proof cases
      case iotex
      with body have "iotexCashier col (main_relayerURLs cfg) dec (cc\<lparr>cc_RelayerURL := u\<rparr>)
          = Inr c"
        by (simp add: cashierBody_iotex)
      from iotexCashier_result [OF this] iotex show ?thesis by auto
    next
      case evm
      with body have "ethereumCashier col (main_relayerURLs cfg) dec (cc\<lparr>cc_RelayerURL := u\<rparr>)
          = Inr c"
        by (simp add: cashierBody_evm)
      from ethereumCashier_result [OF this] obtain a t v r rr ra where
        "c = NewTokenCashierOnEthereum (cc_ID cc) u a t v r
               (word_of_int (cc_StartBlockHeight cc))
               (word_of_int (ConfirmBlockNumber cfg)) rr ra"
        by auto
      with evmChain_not_others [OF evm] show ?thesis by simp
    next
      case solana
      with body have "solanaCashier col (main_relayerURLs cfg) dec (cc\<lparr>cc_RelayerURL := u\<rparr>)
          = Inr c"
        by (simp add: cashierBody_solana)
      from solanaCashier_result [OF this] solana show ?thesis by auto
    qed
  qed
  with main_service [of col pob fuel blocksFlag cfg st] show ?thesis by blast
qed

theorem knobs_by_chain_witness:
  "tc_startBlockHeight
     (run_cashiers (main sampleCollaborators (sampleProcessOneBlock []) 0 continuously
        (sampleConfig\<lparr>Chain := ''solana''\<rparr>) 0) ! 1) = 7
   \<and> tc_qpsLimit
     (run_cashiers (main sampleCollaborators (sampleProcessOneBlock []) 0 continuously
        (sampleConfig\<lparr>Chain := ''solana''\<rparr>) 0) ! 1) = 9
   \<and> tc_disablePull
     (run_cashiers (main sampleCollaborators (sampleProcessOneBlock []) 0 continuously
        (sampleConfig\<lparr>Chain := ''solana''\<rparr>) 0) ! 1) = False
   \<and> map_option svc_disableTransferSubmit
     (run_service (main sampleCollaborators (sampleProcessOneBlock []) 0 continuously
        (sampleConfig\<lparr>Chain := ''solana''\<rparr>) 0)) = Some False
   \<and> onSolana
     (run_cashiers (main sampleCollaborators (sampleProcessOneBlock []) 0 continuously
        sampleConfig 0) ! 1) = False"
proof -
  let ?sol = "main sampleCollaborators (sampleProcessOneBlock []) 0 continuously
      (sampleConfig\<lparr>Chain := ''solana''\<rparr>) 0"
  let ?eth = "main sampleCollaborators (sampleProcessOneBlock []) 0 continuously sampleConfig 0"
  have cc: "cc_StartBlockHeight (Cashiers (sampleConfig\<lparr>Chain := ''solana''\<rparr>) ! 1) = 7"
    "cc_QPSLimit (Cashiers (sampleConfig\<lparr>Chain := ''solana''\<rparr>) ! 1) = 9"
    "cc_DisablePull (Cashiers (sampleConfig\<lparr>Chain := ''solana''\<rparr>) ! 1) = False"
    "Chain (sampleConfig\<lparr>Chain := ''solana''\<rparr>) = ''solana''"
    "DisableTransferSubmit (sampleConfig\<lparr>Chain := ''solana''\<rparr>) = False"
    "Chain sampleConfig \<noteq> ''solana''"
    by (simp_all add: sample_defs)
  obtain service where svc: "run_service ?sol = Some service"
    by (simp add: main_defs sample_defs)
  have "1 < length (run_cashiers ?sol)" by (simp add: sample_cashiers_length_chain)
  from knobs_by_chain [OF this refl refl] cc svc
  have "tc_startBlockHeight (run_cashiers ?sol ! 1) = 7
      \<and> tc_qpsLimit (run_cashiers ?sol ! 1) = 9
      \<and> tc_disablePull (run_cashiers ?sol ! 1) = False
      \<and> svc_disableTransferSubmit service = False"
    by simp
  moreover have "1 < length (run_cashiers ?eth)" by (simp add: sample_cashiers_length)
  from knobs_by_chain [OF this refl refl] cc
  have "onSolana (run_cashiers ?eth ! 1) = False" by simp
  ultimately show ?thesis using svc by simp
qed


text \<open>
  C8 as stated makes each of the four knobs a setting of the single cashier. Switching
  \<^verbatim>\<open>DisableTransferSubmit\<close> leaves the constructed cashiers as they are and changes the
  flag of the service; and on chain \<^verbatim>\<open>"ethereum"\<close> the cashiers stay the same when the
  QPS limits and disable-pull flags of their entries change.
\<close>

theorem knobs_counterexample:
  "run_cashiers (main sampleCollaborators (sampleProcessOneBlock []) 0 continuously
       (sampleConfig\<lparr>Chain := ''solana'', DisableTransferSubmit := True\<rparr>) 0)
     = run_cashiers (main sampleCollaborators (sampleProcessOneBlock []) 0 continuously
       (sampleConfig\<lparr>Chain := ''solana'', DisableTransferSubmit := False\<rparr>) 0)
   \<and> map_option svc_disableTransferSubmit
        (run_service (main sampleCollaborators (sampleProcessOneBlock []) 0 continuously
           (sampleConfig\<lparr>Chain := ''solana'', DisableTransferSubmit := True\<rparr>) 0)) = Some True
   \<and> map_option svc_disableTransferSubmit
        (run_service (main sampleCollaborators (sampleProcessOneBlock []) 0 continuously
           (sampleConfig\<lparr>Chain := ''solana'', DisableTransferSubmit := False\<rparr>) 0)) = Some False
   \<and> map cc_QPSLimit (Cashiers sampleConfig) = [5, 9]
   \<and> map cc_DisablePull (Cashiers sampleConfig) = [True, False]
   \<and> run_cashiers (main sampleCollaborators (sampleProcessOneBlock []) 0 continuously
       (sampleConfig\<lparr>Cashiers :=
          [sampleCashier\<lparr>cc_QPSLimit := 1, cc_DisablePull := False\<rparr>,
           sampleCashier\<lparr>cc_ID := ''c2'', cc_StartBlockHeight := 7, cc_QPSLimit := 1,
                         cc_DisablePull := True\<rparr>]\<rparr>) 0)
     = run_cashiers (main sampleCollaborators (sampleProcessOneBlock []) 0 continuously
       sampleConfig 0)"
  by (simp add: main_defs sample_defs)

end
